theory Spec2Isabelle
  imports Complex_Main
begin

section \<open>Python exceptions as values\<close>

text \<open>
  Nothing in \<^verbatim>\<open>models.py\<close> catches an exception, so a raised exception ends the call
  that raised it and every caller above it. A call therefore returns \<open>Inl e\<close> (raised \<open>e\<close>)
  or \<open>Inr v\<close> (returned \<open>v\<close>), and \<open>and_then\<close> sequences two calls the way two Python
  statements are sequenced.
\<close>

datatype error = AssertionError | IndexError | ZeroDivisionError

definition and_then :: "error + 'a \<Rightarrow> ('a \<Rightarrow> error + 'b) \<Rightarrow> error + 'b" where
  "and_then m f = (case m of Inl e \<Rightarrow> Inl e | Inr v \<Rightarrow> f v)"

text \<open>A Python \<^verbatim>\<open>for\<close> loop over a finite sequence, threading the mutated state.\<close>

fun for_each :: "('s \<Rightarrow> 'b \<Rightarrow> error + 's) \<Rightarrow> 'b list \<Rightarrow> 's \<Rightarrow> error + 's" where
  "for_each body [] s = Inr s"
| "for_each body (b # bs) s = and_then (body s b) (for_each body bs)"

text \<open>Python list indexing \<^verbatim>\<open>xs[i]\<close> with a non-negative index.\<close>

definition getitem :: "'a list \<Rightarrow> nat \<Rightarrow> error + 'a" where
  "getitem xs i = (if i < length xs then Inr (xs ! i) else Inl IndexError)"

section \<open>The tensor library \<^verbatim>\<open>nn\<close>\<close>

text \<open>
  \<^verbatim>\<open>models.py\<close> imports \<^verbatim>\<open>nn\<close>, which is not part of the sources at hand. The
  operations that the properties below depend on are modelled here; the loss operations,
  the differentiation engine and the dataset objects are taken as parameters of the
  training loops. Floating-point numbers are idealised as real numbers.

  A tensor is a two-dimensional array: its shape and its entries (entry \<open>i j\<close> is
  meaningful for \<open>i < nrows\<close> and \<open>j < ncols\<close>).
\<close>

datatype ndarray = NDArray (nrows: nat) (ncols: nat) (cells: "nat \<Rightarrow> nat \<Rightarrow> real")

definition shape :: "ndarray \<Rightarrow> nat \<times> nat" where
  "shape a = (nrows a, ncols a)"

text \<open>A tensor given by its rows, for writing concrete inputs.\<close>

definition of_rows :: "nat \<Rightarrow> real list list \<Rightarrow> ndarray" where
  "of_rows c rs = NDArray (length rs) c (\<lambda>i j. rs ! i ! j)"

text \<open>
  Modelled from the spec: \<^verbatim>\<open>nn.DotProduct\<close> is not under src/. The spec has
  "\<^verbatim>\<open>run(x)\<close> returns dot product of input and weight vector", and the docstring of
  \<^verbatim>\<open>PerceptronModel.run\<close> has \<open>x\<close> of shape (1 x dimensions) and the result "a node
  containing a single number": one dot product with the weight row per input row.
\<close>

definition DotProduct :: "ndarray \<Rightarrow> ndarray \<Rightarrow> error + ndarray" where
  "DotProduct features weights =
     (if nrows weights = 1 \<and> ncols features = ncols weights
      then Inr (NDArray (nrows features) 1
                 (\<lambda>i j. \<Sum>l<ncols features. cells features i l * cells weights 0 l))
      else Inl AssertionError)"

text \<open>
  Modelled from the spec: \<^verbatim>\<open>nn.as_scalar\<close> is not under src/. The spec has
  "\<^verbatim>\<open>as_scalar(node)\<close> \<rightarrow> float": the single entry of a node that holds one number.
\<close>

definition as_scalar :: "ndarray \<Rightarrow> error + real" where
  "as_scalar node =
     (if nrows node * ncols node = 1 then Inr (cells node 0 0) else Inl AssertionError)"

text \<open>
  Modelled from the spec: \<^verbatim>\<open>nn.Parameter.update\<close> is not under src/. The spec has
  "\<^verbatim>\<open>update(direction, scale)\<close> in-place mutation" and "nudges the weight vector by
  adding (or subtracting) the input vector": the parameter becomes
  \<open>parameter + multiplier * direction\<close>, entry by entry, and keeps its shape. The sum
  is the exact sum of real numbers; the library adds float64 numbers and rounds, so that
  a small addend can be lost (\<open>0.5 - 2\<^sup>-\<^sup>6\<^sup>0\<close> is \<open>0.5\<close>). The same holds of the sums
  in \<open>DotProduct\<close>. A statement that needs the exact sums says so.
\<close>

definition update :: "ndarray \<Rightarrow> ndarray \<Rightarrow> real \<Rightarrow> error + ndarray" where
  "update param direction multiplier =
     (if shape direction = shape param
      then Inr (NDArray (nrows param) (ncols param)
                 (\<lambda>i j. cells param i j + multiplier * cells direction i j))
      else Inl AssertionError)"

text \<open>
  Modelled from the spec: \<^verbatim>\<open>nn.Parameter\<close> is not under src/. The spec has
  "\<^verbatim>\<open>Parameter(rows, cols)\<close> \<rightarrow> mutable tensor handle" whose shape is "fixed at
  construction"; its initial entries are not said, so they are an argument.
\<close>

definition Parameter :: "nat \<Rightarrow> nat \<Rightarrow> (nat \<Rightarrow> nat \<Rightarrow> real) \<Rightarrow> ndarray" where
  "Parameter r c init = NDArray r c init"

section \<open>PerceptronModel\<close>

record PerceptronModel =
  perc_w :: ndarray

text \<open>
  \<^verbatim>\<open>self.w = nn.Parameter(1, dimensions)\<close>; the argument \<open>init\<close> is the initial
  entries of the weights.
\<close>

definition perceptron_init :: "nat \<Rightarrow> (nat \<Rightarrow> nat \<Rightarrow> real) \<Rightarrow> PerceptronModel" where
  "perceptron_init dimensions init = \<lparr>perc_w = Parameter 1 dimensions init\<rparr>"

text \<open>\<^verbatim>\<open>return self.w\<close>\<close>

definition get_weights :: "PerceptronModel \<Rightarrow> ndarray" where
  "get_weights self = perc_w self"

text \<open>\<^verbatim>\<open>return nn.DotProduct(x, self.w)\<close>\<close>

definition perceptron_run :: "PerceptronModel \<Rightarrow> ndarray \<Rightarrow> error + ndarray" where
  "perceptron_run self x = DotProduct x (perc_w self)"

text \<open>
  \<^verbatim>\<open>dot = self.run(x); if nn.as_scalar(dot) >= 0.0: return 1 else: return -1\<close>
\<close>

definition get_prediction :: "PerceptronModel \<Rightarrow> ndarray \<Rightarrow> error + int" where
  "get_prediction self x =
     and_then (perceptron_run self x) (\<lambda>dot.
     and_then (as_scalar dot) (\<lambda>s.
     if s \<ge> 0 then Inr 1 else Inr (- 1)))"

text \<open>
  The body of the \<^verbatim>\<open>for\<close> loop of \<^verbatim>\<open>train\<close>, on the loop state \<open>(count, self)\<close> and
  one batch \<open>data = (data[0], data[1])\<close>. Python's \<^verbatim>\<open>and\<close> evaluates its right operand
  only when the left one is true, and the \<^verbatim>\<open>elif\<close> test only when the \<^verbatim>\<open>if\<close> test is
  false.
\<close>

definition label_is :: "int \<Rightarrow> int \<Rightarrow> real \<Rightarrow> ndarray \<Rightarrow> error + bool" where
  "label_is prediction p l y =
     (if prediction = p then and_then (as_scalar y) (\<lambda>v. Inr (v = l)) else Inr False)"

definition train_batch ::
  "nat \<times> PerceptronModel \<Rightarrow> ndarray \<times> ndarray \<Rightarrow> error + nat \<times> PerceptronModel" where
  "train_batch st data =
     (case st of (count, self) \<Rightarrow>
      and_then (get_prediction self (fst data)) (\<lambda>p1.
      and_then (label_is p1 (- 1) 1 (snd data)) (\<lambda>c1.
      if c1 then
        and_then (update (perc_w self) (fst data) 1) (\<lambda>w'.
        Inr (count + 1, self\<lparr>perc_w := w'\<rparr>))
      else
        and_then (get_prediction self (fst data)) (\<lambda>p2.
        and_then (label_is p2 1 (- 1) (snd data)) (\<lambda>c2.
        if c2 then
          and_then (update (perc_w self) (fst data) (- 1)) (\<lambda>w'.
          Inr (count + 1, self\<lparr>perc_w := w'\<rparr>))
        else Inr (count, self))))))"

text \<open>
  Modelled from the spec: the dataset objects are not under src/. The spec has
  "\<^verbatim>\<open>iterate_once(batch_size)\<close> \<rightarrow> finite sequence of \<open>(x, y)\<close> batch pairs" and
  "\<^verbatim>\<open>get_validation_accuracy()\<close> \<rightarrow> float"; \<^verbatim>\<open>dataset.x.shape[0]\<close> is the number of
  examples. The validation accuracy is computed from the model being trained, so it is
  a function of the model.
\<close>

record ('x, 'm) dataset =
  iterate_once :: "nat \<Rightarrow> ('x \<times> ndarray) list"
  x_shape0 :: nat
  get_validation_accuracy :: "'m \<Rightarrow> real"

text \<open>One pass of the \<^verbatim>\<open>while\<close> loop: \<^verbatim>\<open>count = 0\<close>, then the \<^verbatim>\<open>for\<close> loop.\<close>

definition train_pass ::
  "(ndarray, 'm) dataset \<Rightarrow> PerceptronModel \<Rightarrow> error + nat \<times> PerceptronModel" where
  "train_pass dataset self = for_each train_batch (iterate_once dataset 1) (0, self)"

text \<open>
  \<^verbatim>\<open>count = 1; while count != 0: ...\<close>: the first pass always runs, and the loop is left
  after the first pass that ends with \<^verbatim>\<open>count == 0\<close>. \<open>None\<close> is a loop that never ends.
\<close>

partial_function (option) perceptron_train ::
  "(ndarray, 'm) dataset \<Rightarrow> PerceptronModel \<Rightarrow> (error + PerceptronModel) option" where
  "perceptron_train dataset self =
     (case train_pass dataset self of
        Inl e \<Rightarrow> Some (Inl e)
      | Inr (count, self') \<Rightarrow>
          if count \<noteq> 0 then perceptron_train dataset self' else Some (Inr self'))"

text \<open>
  The same four functions with \<^verbatim>\<open>nn.DotProduct\<close> and \<^verbatim>\<open>nn.Parameter.update\<close> as
  arguments, for statements that hold whatever these two operations compute (with
  float64 rounding, too).
\<close>

type_synonym dotf = "ndarray \<Rightarrow> ndarray \<Rightarrow> error + ndarray"

type_synonym updatef = "ndarray \<Rightarrow> ndarray \<Rightarrow> real \<Rightarrow> error + ndarray"

definition get_prediction_with :: "dotf \<Rightarrow> PerceptronModel \<Rightarrow> ndarray \<Rightarrow> error + int" where
  "get_prediction_with dotp self x =
     and_then (dotp x (perc_w self)) (\<lambda>dot.
     and_then (as_scalar dot) (\<lambda>s.
     if s \<ge> 0 then Inr 1 else Inr (- 1)))"

definition train_batch_with ::
  "dotf \<Rightarrow> updatef \<Rightarrow> nat \<times> PerceptronModel \<Rightarrow> ndarray \<times> ndarray
     \<Rightarrow> error + nat \<times> PerceptronModel" where
  "train_batch_with dotp upd st data =
     (case st of (count, self) \<Rightarrow>
      and_then (get_prediction_with dotp self (fst data)) (\<lambda>p1.
      and_then (label_is p1 (- 1) 1 (snd data)) (\<lambda>c1.
      if c1 then
        and_then (upd (perc_w self) (fst data) 1) (\<lambda>w'.
        Inr (count + 1, self\<lparr>perc_w := w'\<rparr>))
      else
        and_then (get_prediction_with dotp self (fst data)) (\<lambda>p2.
        and_then (label_is p2 1 (- 1) (snd data)) (\<lambda>c2.
        if c2 then
          and_then (upd (perc_w self) (fst data) (- 1)) (\<lambda>w'.
          Inr (count + 1, self\<lparr>perc_w := w'\<rparr>))
        else Inr (count, self))))))"

definition train_pass_with ::
  "dotf \<Rightarrow> updatef \<Rightarrow> (ndarray, 'm) dataset \<Rightarrow> PerceptronModel
     \<Rightarrow> error + nat \<times> PerceptronModel" where
  "train_pass_with dotp upd dataset self =
     for_each (train_batch_with dotp upd) (iterate_once dataset 1) (0, self)"

partial_function (option) perceptron_train_with ::
  "dotf \<Rightarrow> updatef \<Rightarrow> (ndarray, 'm) dataset \<Rightarrow> PerceptronModel
     \<Rightarrow> (error + PerceptronModel) option" where
  "perceptron_train_with dotp upd dataset self =
     (case train_pass_with dotp upd dataset self of
        Inl e \<Rightarrow> Some (Inl e)
      | Inr (count, self') \<Rightarrow>
          if count \<noteq> 0 then perceptron_train_with dotp upd dataset self'
          else Some (Inr self'))"

section \<open>The layers of the networks\<close>

text \<open>
  Modelled from the spec: \<^verbatim>\<open>nn.Linear\<close>, \<^verbatim>\<open>nn.AddBias\<close>, \<^verbatim>\<open>nn.Add\<close> and
  \<^verbatim>\<open>nn.ReLU\<close> are not under src/. The spec lists them as the "elementwise/matrix ops"
  that make the "linear layers, bias addition, ReLU"; the shapes are those of the
  docstrings and constructors of \<^verbatim>\<open>models.py\<close>: a batch of shape (batch_size x n) times
  a parameter of shape (n x m) is a batch of shape (batch_size x m), a bias has one row,
  and a mismatch of shapes is an exception.
\<close>

definition Linear :: "ndarray \<Rightarrow> ndarray \<Rightarrow> error + ndarray" where
  "Linear features weights =
     (if ncols features = nrows weights
      then Inr (NDArray (nrows features) (ncols weights)
                 (\<lambda>i j. \<Sum>l<ncols features. cells features i l * cells weights l j))
      else Inl AssertionError)"

definition AddBias :: "ndarray \<Rightarrow> ndarray \<Rightarrow> error + ndarray" where
  "AddBias features bias =
     (if nrows bias = 1 \<and> ncols features = ncols bias
      then Inr (NDArray (nrows features) (ncols features)
                 (\<lambda>i j. cells features i j + cells bias 0 j))
      else Inl AssertionError)"

definition Add :: "ndarray \<Rightarrow> ndarray \<Rightarrow> error + ndarray" where
  "Add a b =
     (if shape a = shape b
      then Inr (NDArray (nrows a) (ncols a) (\<lambda>i j. cells a i j + cells b i j))
      else Inl AssertionError)"

definition ReLU :: "ndarray \<Rightarrow> ndarray" where
  "ReLU a = NDArray (nrows a) (ncols a) (\<lambda>i j. max (cells a i j) 0)"

text \<open>
  \<^verbatim>\<open>for i in range(len(origin)): origin[i].update(gradient[i], self.alpha)\<close>, on the
  list of the parameters' values.
\<close>

definition update_all :: "ndarray list \<Rightarrow> ndarray list \<Rightarrow> real \<Rightarrow> error + ndarray list" where
  "update_all origin gradient alpha =
     for_each (\<lambda>ps i.
         and_then (getitem gradient i) (\<lambda>g.
         and_then (update (ps ! i) g alpha) (\<lambda>p'.
         Inr (ps[i := p']))))
       [0..<length origin] origin"

section \<open>RegressionModel\<close>

record RegressionModel =
  reg_w_1 :: ndarray
  reg_b_1 :: ndarray
  reg_w_2 :: ndarray
  reg_b_2 :: ndarray
  reg_batch_size :: nat
  reg_alpha :: real

text \<open>\<^verbatim>\<open>__init__\<close>; the arguments are the initial entries of the four parameters.\<close>

definition regression_init ::
  "(nat \<Rightarrow> nat \<Rightarrow> real) \<Rightarrow> (nat \<Rightarrow> nat \<Rightarrow> real) \<Rightarrow> (nat \<Rightarrow> nat \<Rightarrow> real) \<Rightarrow> (nat \<Rightarrow> nat \<Rightarrow> real)
     \<Rightarrow> RegressionModel" where
  "regression_init i1 i2 i3 i4 =
     \<lparr>reg_w_1 = Parameter 1 400 i1, reg_b_1 = Parameter 1 400 i2,
      reg_w_2 = Parameter 400 1 i3, reg_b_2 = Parameter 1 1 i4,
      reg_batch_size = 0, reg_alpha = - 0.01\<rparr>"

text \<open>
  \<^verbatim>\<open>run\<close> returns the model as the call leaves it together with the node it returns.
\<close>

definition regression_run ::
  "RegressionModel \<Rightarrow> ndarray \<Rightarrow> error + RegressionModel \<times> ndarray" where
  "regression_run self x =
     (let self1 = (if reg_batch_size self = 0 then self\<lparr>reg_batch_size := nrows x\<rparr> else self)
      in and_then (Linear x (reg_w_1 self1)) (\<lambda>l1.
         and_then (AddBias l1 (reg_b_1 self1)) (\<lambda>a1.
         let first_bias = ReLU a1
         in and_then (Linear first_bias (reg_w_2 self1)) (\<lambda>l2.
            and_then (AddBias l2 (reg_b_2 self1)) (\<lambda>out.
            Inr (self1, out))))))"

text \<open>
  The loss operations and \<^verbatim>\<open>nn.gradients\<close> are parameters: \<open>lossf\<close> is
  \<^verbatim>\<open>nn.SquareLoss\<close> or \<^verbatim>\<open>nn.SoftmaxLoss\<close>, and \<open>gradients loss origin batch\<close> is
  \<^verbatim>\<open>nn.gradients(loss, origin)\<close> for the loss node built from the parameters \<open>origin\<close>
  and the batch \<open>batch\<close>, which are what the graph below the loss node holds.
\<close>

type_synonym lossf = "ndarray \<Rightarrow> ndarray \<Rightarrow> error + ndarray"
type_synonym 'x gradf = "ndarray \<Rightarrow> ndarray list \<Rightarrow> 'x \<times> ndarray \<Rightarrow> error + ndarray list"

definition regression_get_loss ::
  "lossf \<Rightarrow> RegressionModel \<Rightarrow> ndarray \<Rightarrow> ndarray \<Rightarrow> error + RegressionModel \<times> ndarray" where
  "regression_get_loss SquareLoss self x y =
     and_then (regression_run self x) (\<lambda>(self1, out).
     and_then (SquareLoss out y) (\<lambda>loss.
     Inr (self1, loss)))"

text \<open>The body of the \<^verbatim>\<open>for\<close> loop of \<^verbatim>\<open>train\<close>, on the loop state \<open>(losses, self)\<close>.\<close>

definition regression_batch ::
  "lossf \<Rightarrow> ndarray gradf \<Rightarrow> real \<times> RegressionModel \<Rightarrow> ndarray \<times> ndarray
     \<Rightarrow> error + real \<times> RegressionModel" where
  "regression_batch SquareLoss gradients st batch =
     (case st of (losses, self) \<Rightarrow>
      and_then (regression_get_loss SquareLoss self (fst batch) (snd batch)) (\<lambda>(self1, loss).
      and_then (as_scalar loss) (\<lambda>v.
      let losses1 = losses + v;
          origin = [reg_w_1 self1, reg_b_1 self1, reg_w_2 self1, reg_b_2 self1]
      in and_then (gradients loss origin batch) (\<lambda>gradient.
         and_then (update_all origin gradient (reg_alpha self1)) (\<lambda>ps.
         Inr (losses1, self1\<lparr>reg_w_1 := ps ! 0, reg_b_1 := ps ! 1,
                             reg_w_2 := ps ! 2, reg_b_2 := ps ! 3\<rparr>))))))"

text \<open>
  One pass of \<^verbatim>\<open>while True\<close>: \<^verbatim>\<open>losses = 0\<close>, then the \<^verbatim>\<open>for\<close> loop over
  \<^verbatim>\<open>dataset.iterate_once(self.batch_size)\<close>.
\<close>

definition regression_epoch ::
  "lossf \<Rightarrow> ndarray gradf \<Rightarrow> (ndarray, 'm) dataset \<Rightarrow> RegressionModel
     \<Rightarrow> error + real \<times> RegressionModel" where
  "regression_epoch SquareLoss gradients dataset self =
     for_each (regression_batch SquareLoss gradients)
       (iterate_once dataset (reg_batch_size self)) (0, self)"

text \<open>
  \<^verbatim>\<open>if losses / dataset.x.shape[0] < 0.02: break\<close>; dividing by zero is Python's
  \<^verbatim>\<open>ZeroDivisionError\<close>.
\<close>

partial_function (option) regression_train ::
  "lossf \<Rightarrow> ndarray gradf \<Rightarrow> (ndarray, 'm) dataset \<Rightarrow> RegressionModel
     \<Rightarrow> (error + RegressionModel) option" where
  "regression_train SquareLoss gradients dataset self =
     (case regression_epoch SquareLoss gradients dataset self of
        Inl e \<Rightarrow> Some (Inl e)
      | Inr (losses, self1) \<Rightarrow>
          if x_shape0 dataset = 0 then Some (Inl ZeroDivisionError)
          else if losses / real (x_shape0 dataset) < 0.02 then Some (Inr self1)
          else regression_train SquareLoss gradients dataset self1)"

section \<open>DigitClassificationModel\<close>

record DigitClassificationModel =
  dig_w_1 :: ndarray
  dig_b_1 :: ndarray
  dig_w_2 :: ndarray
  dig_b_2 :: ndarray
  dig_batch_size :: nat
  dig_alpha :: real

definition digit_init ::
  "(nat \<Rightarrow> nat \<Rightarrow> real) \<Rightarrow> (nat \<Rightarrow> nat \<Rightarrow> real) \<Rightarrow> (nat \<Rightarrow> nat \<Rightarrow> real) \<Rightarrow> (nat \<Rightarrow> nat \<Rightarrow> real)
     \<Rightarrow> DigitClassificationModel" where
  "digit_init i1 i2 i3 i4 =
     \<lparr>dig_w_1 = Parameter 784 100 i1, dig_b_1 = Parameter 1 100 i2,
      dig_w_2 = Parameter 100 10 i3, dig_b_2 = Parameter 1 10 i4,
      dig_batch_size = 5, dig_alpha = - 0.01\<rparr>"

definition digit_run ::
  "DigitClassificationModel \<Rightarrow> ndarray \<Rightarrow> error + DigitClassificationModel \<times> ndarray" where
  "digit_run self x =
     and_then (Linear x (dig_w_1 self)) (\<lambda>l1.
     and_then (AddBias l1 (dig_b_1 self)) (\<lambda>a1.
     let first_bias = ReLU a1
     in and_then (Linear first_bias (dig_w_2 self)) (\<lambda>l2.
        and_then (AddBias l2 (dig_b_2 self)) (\<lambda>out.
        Inr (self, out)))))"

definition digit_get_loss ::
  "lossf \<Rightarrow> DigitClassificationModel \<Rightarrow> ndarray \<Rightarrow> ndarray
     \<Rightarrow> error + DigitClassificationModel \<times> ndarray" where
  "digit_get_loss SoftmaxLoss self x y =
     and_then (digit_run self x) (\<lambda>(self1, out).
     and_then (SoftmaxLoss out y) (\<lambda>loss.
     Inr (self1, loss)))"

definition digit_batch ::
  "lossf \<Rightarrow> ndarray gradf \<Rightarrow> DigitClassificationModel \<Rightarrow> ndarray \<times> ndarray
     \<Rightarrow> error + DigitClassificationModel" where
  "digit_batch SoftmaxLoss gradients self batch =
     and_then (digit_get_loss SoftmaxLoss self (fst batch) (snd batch)) (\<lambda>(self1, loss).
     let origin = [dig_w_1 self1, dig_b_1 self1, dig_w_2 self1, dig_b_2 self1]
     in and_then (gradients loss origin batch) (\<lambda>gradient.
        and_then (update_all origin gradient (dig_alpha self1)) (\<lambda>ps.
        Inr (self1\<lparr>dig_w_1 := ps ! 0, dig_b_1 := ps ! 1,
                  dig_w_2 := ps ! 2, dig_b_2 := ps ! 3\<rparr>))))"

definition digit_epoch ::
  "lossf \<Rightarrow> ndarray gradf \<Rightarrow> (ndarray, DigitClassificationModel) dataset
     \<Rightarrow> DigitClassificationModel \<Rightarrow> error + DigitClassificationModel" where
  "digit_epoch SoftmaxLoss gradients dataset self =
     for_each (digit_batch SoftmaxLoss gradients)
       (iterate_once dataset (dig_batch_size self)) self"

text \<open>\<^verbatim>\<open>if dataset.get_validation_accuracy() >= 0.975: break\<close>\<close>

partial_function (option) digit_train ::
  "lossf \<Rightarrow> ndarray gradf \<Rightarrow> (ndarray, DigitClassificationModel) dataset
     \<Rightarrow> DigitClassificationModel \<Rightarrow> (error + DigitClassificationModel) option" where
  "digit_train SoftmaxLoss gradients dataset self =
     (case digit_epoch SoftmaxLoss gradients dataset self of
        Inl e \<Rightarrow> Some (Inl e)
      | Inr self1 \<Rightarrow>
          if get_validation_accuracy dataset self1 \<ge> 0.975 then Some (Inr self1)
          else digit_train SoftmaxLoss gradients dataset self1)"

section \<open>LanguageIDModel\<close>

record LanguageIDModel =
  lang_num_chars :: nat
  lang_languages :: "string list"
  lang_batch_size :: nat
  lang_alpha :: real
  lang_w_1 :: ndarray
  lang_w_2 :: ndarray
  lang_w_3 :: ndarray

definition language_init ::
  "(nat \<Rightarrow> nat \<Rightarrow> real) \<Rightarrow> (nat \<Rightarrow> nat \<Rightarrow> real) \<Rightarrow> (nat \<Rightarrow> nat \<Rightarrow> real) \<Rightarrow> LanguageIDModel" where
  "language_init i1 i2 i3 =
     (let num_chars = 47;
          languages = [''English'', ''Spanish'', ''Finnish'', ''Dutch'', ''Polish'']
      in \<lparr>lang_num_chars = num_chars, lang_languages = languages,
          lang_batch_size = 0, lang_alpha = - 0.01,
          lang_w_1 = Parameter num_chars 100 i1,
          lang_w_2 = Parameter 100 100 i2,
          lang_w_3 = Parameter 100 (length languages) i3\<rparr>)"

text \<open>
  The body of \<^verbatim>\<open>for i in range(len(xs))\<close> in \<^verbatim>\<open>run\<close>, on the loop variable \<open>f\<close>:
  \<^verbatim>\<open>if i == 0: continue\<close>
  \<^verbatim>\<open>else: f = nn.ReLU(nn.Add(nn.Linear(xs[i], self.w_1), nn.Linear(f, self.w_2)))\<close>
\<close>

definition language_step ::
  "LanguageIDModel \<Rightarrow> ndarray list \<Rightarrow> ndarray \<Rightarrow> nat \<Rightarrow> error + ndarray" where
  "language_step self xs f i =
     (if i = 0 then Inr f
      else and_then (getitem xs i) (\<lambda>xi.
           and_then (Linear xi (lang_w_1 self)) (\<lambda>a.
           and_then (Linear f (lang_w_2 self)) (\<lambda>b.
           and_then (Add a b) (\<lambda>s.
           Inr (ReLU s))))))"

definition language_run ::
  "LanguageIDModel \<Rightarrow> ndarray list \<Rightarrow> error + LanguageIDModel \<times> ndarray" where
  "language_run self xs =
     and_then (if lang_batch_size self = 0
               then and_then (getitem xs 0) (\<lambda>x0. Inr (self\<lparr>lang_batch_size := nrows x0\<rparr>))
               else Inr self) (\<lambda>self1.
     and_then (getitem xs 0) (\<lambda>x0.
     and_then (Linear x0 (lang_w_1 self1)) (\<lambda>a0.
     and_then (for_each (language_step self1 xs) [0..<length xs] (ReLU a0)) (\<lambda>f.
     and_then (Linear f (lang_w_3 self1)) (\<lambda>out.
     Inr (self1, out))))))"

definition language_get_loss ::
  "lossf \<Rightarrow> LanguageIDModel \<Rightarrow> ndarray list \<Rightarrow> ndarray \<Rightarrow> error + LanguageIDModel \<times> ndarray" where
  "language_get_loss SoftmaxLoss self xs y =
     and_then (language_run self xs) (\<lambda>(self1, out).
     and_then (SoftmaxLoss out y) (\<lambda>loss.
     Inr (self1, loss)))"

definition language_batch ::
  "lossf \<Rightarrow> (ndarray list) gradf \<Rightarrow> LanguageIDModel \<Rightarrow> ndarray list \<times> ndarray
     \<Rightarrow> error + LanguageIDModel" where
  "language_batch SoftmaxLoss gradients self batch =
     and_then (language_get_loss SoftmaxLoss self (fst batch) (snd batch)) (\<lambda>(self1, loss).
     let origin = [lang_w_1 self1, lang_w_2 self1, lang_w_3 self1]
     in and_then (gradients loss origin batch) (\<lambda>gradient.
        and_then (update_all origin gradient (lang_alpha self1)) (\<lambda>ps.
        Inr (self1\<lparr>lang_w_1 := ps ! 0, lang_w_2 := ps ! 1, lang_w_3 := ps ! 2\<rparr>))))"

definition language_epoch ::
  "lossf \<Rightarrow> (ndarray list) gradf \<Rightarrow> (ndarray list, LanguageIDModel) dataset
     \<Rightarrow> LanguageIDModel \<Rightarrow> error + LanguageIDModel" where
  "language_epoch SoftmaxLoss gradients dataset self =
     for_each (language_batch SoftmaxLoss gradients)
       (iterate_once dataset (lang_batch_size self)) self"

text \<open>\<^verbatim>\<open>if dataset.get_validation_accuracy() >= 0.83: break\<close>\<close>

partial_function (option) language_train ::
  "lossf \<Rightarrow> (ndarray list) gradf \<Rightarrow> (ndarray list, LanguageIDModel) dataset
     \<Rightarrow> LanguageIDModel \<Rightarrow> (error + LanguageIDModel) option" where
  "language_train SoftmaxLoss gradients dataset self =
     (case language_epoch SoftmaxLoss gradients dataset self of
        Inl e \<Rightarrow> Some (Inl e)
      | Inr self1 \<Rightarrow>
          if get_validation_accuracy dataset self1 \<ge> 0.83 then Some (Inr self1)
          else language_train SoftmaxLoss gradients dataset self1)"

section \<open>The recurrence of the specification\<close>

text \<open>
  The hidden states as the specification words them, for comparison with the loop of
  \<^verbatim>\<open>LanguageIDModel.run\<close>: \<open>h\<^sub>0 = ReLU (Linear (xs[0], w_1))\<close> and
  \<open>h\<^sub>i = ReLU (Add (Linear (xs[i], w_1), Linear (h\<^sub>i\<^sub>-\<^sub>1, w_2)))\<close>.
\<close>

fun spec_hidden :: "LanguageIDModel \<Rightarrow> ndarray list \<Rightarrow> nat \<Rightarrow> error + ndarray" where
  "spec_hidden self xs 0 =
     and_then (Linear (xs ! 0) (lang_w_1 self)) (\<lambda>a. Inr (ReLU a))"
| "spec_hidden self xs (Suc i) =
     and_then (spec_hidden self xs i) (\<lambda>h.
     and_then (Linear (xs ! Suc i) (lang_w_1 self)) (\<lambda>a.
     and_then (Linear h (lang_w_2 self)) (\<lambda>b.
     and_then (Add a b) (\<lambda>s.
     Inr (ReLU s)))))"

section \<open>Sequences of calls and the shapes of the parameters\<close>

text \<open>
  \<^verbatim>\<open>RegressionModel.run\<close> called on one input after another, each call on the model
  as the call before left it; the returned nodes are dropped.
\<close>

definition regression_calls :: "RegressionModel \<Rightarrow> ndarray list \<Rightarrow> error + RegressionModel" where
  "regression_calls self xs =
     for_each (\<lambda>m x. and_then (regression_run m x) (\<lambda>r. Inr (fst r))) xs self"

text \<open>The shapes of a model's parameters, in the order of \<^verbatim>\<open>__init__\<close>.\<close>

definition regression_shapes :: "RegressionModel \<Rightarrow> (nat \<times> nat) list" where
  "regression_shapes self =
     [shape (reg_w_1 self), shape (reg_b_1 self), shape (reg_w_2 self), shape (reg_b_2 self)]"

definition digit_shapes :: "DigitClassificationModel \<Rightarrow> (nat \<times> nat) list" where
  "digit_shapes self =
     [shape (dig_w_1 self), shape (dig_b_1 self), shape (dig_w_2 self), shape (dig_b_2 self)]"

definition language_shapes :: "LanguageIDModel \<Rightarrow> (nat \<times> nat) list" where
  "language_shapes self = [shape (lang_w_1 self), shape (lang_w_2 self), shape (lang_w_3 self)]"

section \<open>Linear separation\<close>

text \<open>
  The dot product of two rows of \<open>d\<close> entries; a weight row \<open>u\<close> and an offset \<open>b\<close>
  separate a list of labelled points when \<open>u \<cdot> x + b\<close> is positive on the points labelled
  \<open>1\<close> and negative on those labelled \<open>-1\<close> (through the origin when \<open>b = 0\<close>); a model
  classifies a list of labelled points when \<^verbatim>\<open>get_prediction\<close> returns the label of each.
\<close>

definition dot :: "nat \<Rightarrow> (nat \<Rightarrow> real) \<Rightarrow> (nat \<Rightarrow> real) \<Rightarrow> real" where
  "dot d u v = (\<Sum>j<d. u j * v j)"

definition separates ::
  "(nat \<Rightarrow> real) \<Rightarrow> real \<Rightarrow> nat \<Rightarrow> (ndarray \<times> ndarray) list \<Rightarrow> bool" where
  "separates u b d examples =
     list_all (\<lambda>(x, y). shape x = (1, d)
        \<and> (as_scalar y = Inr 1 \<and> 0 < dot d u (cells x 0) + b
           \<or> as_scalar y = Inr (- 1) \<and> dot d u (cells x 0) + b < 0)) examples"

definition classifies :: "PerceptronModel \<Rightarrow> (ndarray \<times> ndarray) list \<Rightarrow> bool" where
  "classifies self examples =
     list_all (\<lambda>(x, y). case get_prediction self x of
         Inl e \<Rightarrow> False
       | Inr p \<Rightarrow> as_scalar y = Inr (real_of_int p)) examples"

text \<open>
  The examples are labelled when every label is \<open>1\<close> or \<open>-1\<close>; \<open>classifies_with\<close> is
  \<open>classifies\<close> for the prediction computed with a given dot product.
\<close>

definition labelled :: "(ndarray \<times> ndarray) list \<Rightarrow> bool" where
  "labelled examples =
     list_all (\<lambda>(x, y). as_scalar y = Inr 1 \<or> as_scalar y = Inr (- 1)) examples"

definition classifies_with :: "dotf \<Rightarrow> PerceptronModel \<Rightarrow> (ndarray \<times> ndarray) list \<Rightarrow> bool" where
  "classifies_with dotp self examples =
     list_all (\<lambda>(x, y). case get_prediction_with dotp self x of
         Inl e \<Rightarrow> False
       | Inr p \<Rightarrow> as_scalar y = Inr (real_of_int p)) examples"

text \<open>
  For the convergence proof: a point has margin at least \<open>g\<close> and squared length at most
  \<open>R\<close>; after \<open>k\<close> corrections the weights have moved at least \<open>k * g\<close> along \<open>u\<close> and
  their squared length has grown by at most \<open>k * R\<close>.
\<close>

definition good :: "(nat \<Rightarrow> real) \<Rightarrow> nat \<Rightarrow> real \<Rightarrow> real \<Rightarrow> ndarray \<times> ndarray \<Rightarrow> bool" where
  "good u d g R e \<longleftrightarrow>
     shape (fst e) = (1, d)
     \<and> (case as_scalar (snd e) of
          Inl err \<Rightarrow> False
        | Inr l \<Rightarrow> (l = 1 \<or> l = - 1) \<and> g \<le> l * dot d u (cells (fst e) 0))
     \<and> dot d (cells (fst e) 0) (cells (fst e) 0) \<le> R"

definition potential ::
  "(nat \<Rightarrow> real) \<Rightarrow> nat \<Rightarrow> real \<Rightarrow> real \<Rightarrow> real \<Rightarrow> real \<Rightarrow> nat \<Rightarrow> PerceptronModel \<Rightarrow> bool" where
  "potential u d a0 n0 g R k self \<longleftrightarrow>
     shape (perc_w self) = (1, d)
     \<and> a0 + real k * g \<le> dot d u (cells (perc_w self) 0)
     \<and> dot d (cells (perc_w self) 0) (cells (perc_w self) 0) \<le> n0 + real k * R"

text \<open>The state after pass \<open>n + 1\<close> of the \<^verbatim>\<open>while\<close> loop of \<^verbatim>\<open>PerceptronModel.train\<close>.\<close>

fun nth_pass ::
  "(ndarray, 'm) dataset \<Rightarrow> nat \<Rightarrow> PerceptronModel \<Rightarrow> error + nat \<times> PerceptronModel" where
  "nth_pass ds 0 self = train_pass ds self"
| "nth_pass ds (Suc n) self = and_then (train_pass ds self) (\<lambda>r. nth_pass ds n (snd r))"

section \<open>The losses of a pass\<close>

text \<open>
  The squared error of each example (row) of a batch, given the predictions \<open>out\<close> and
  the targets \<open>y\<close>.
\<close>

definition square_errors :: "ndarray \<Rightarrow> ndarray \<Rightarrow> real list" where
  "square_errors out y =
     map (\<lambda>i. \<Sum>j<ncols out. (cells out i j - cells y i j)\<^sup>2) [0..<nrows out]"

text \<open>
  Modelled from the spec: \<^verbatim>\<open>nn.SquareLoss\<close> is not under src/. The spec has a
  "squared-error loss" that maps "(prediction, target) \<rightarrow> scalar-bearing loss node": one
  number for the whole batch, here the mean of the squared errors of the batch.
\<close>

definition batch_mean_loss :: lossf where
  "batch_mean_loss out y =
     (if shape out = shape y
      then Inr (NDArray 1 1
                 (\<lambda>i j. sum_list (square_errors out y) / real (nrows out * ncols out)))
      else Inl AssertionError)"

text \<open>
  The numbers that one pass of \<^verbatim>\<open>RegressionModel.train\<close> adds to \<^verbatim>\<open>losses\<close>, batch by
  batch: \<^verbatim>\<open>nn.as_scalar(self.get_loss(x, y))\<close> on the model as the batches before left it.
\<close>

fun pass_losses ::
  "lossf \<Rightarrow> ndarray gradf \<Rightarrow> RegressionModel \<Rightarrow> (ndarray \<times> ndarray) list \<Rightarrow> error + real list" where
  "pass_losses SquareLoss gradients self [] = Inr []"
| "pass_losses SquareLoss gradients self (b # bs) =
     and_then (regression_get_loss SquareLoss self (fst b) (snd b)) (\<lambda>r.
     and_then (as_scalar (snd r)) (\<lambda>v.
     and_then (regression_batch SquareLoss gradients (0, self) b) (\<lambda>st.
     and_then (pass_losses SquareLoss gradients (snd st) bs) (\<lambda>vs.
     Inr (v # vs)))))"

text \<open>The squared errors of the examples of a batch under the model's predictions.\<close>

definition run_square_errors :: "RegressionModel \<Rightarrow> ndarray \<Rightarrow> ndarray \<Rightarrow> error + real list" where
  "run_square_errors self x y =
     and_then (regression_run self x) (\<lambda>r. Inr (square_errors (snd r) y))"

section \<open>Concrete models and inputs\<close>

definition zeros :: "nat \<Rightarrow> nat \<Rightarrow> real" where
  "zeros i j = 0"

definition example_perceptron :: PerceptronModel where
  "example_perceptron = \<lparr>perc_w = of_rows 2 [[1, 2]]\<rparr>"

definition example_point :: ndarray where
  "example_point = of_rows 2 [[3, - 1]]"

definition example_language :: LanguageIDModel where
  "example_language = language_init zeros zeros zeros"

definition example_word :: "ndarray list" where
  "example_word = [NDArray 2 47 zeros, NDArray 2 47 zeros, NDArray 2 47 zeros]"

definition example_labels :: ndarray where
  "example_labels = NDArray 2 5 zeros"

definition example_loss :: lossf where
  "example_loss out y = Inr (NDArray 1 1 zeros)"

definition example_gradients :: "'x gradf" where
  "example_gradients loss origin batch = Inr origin"

definition example_regression :: RegressionModel where
  "example_regression = regression_init zeros zeros zeros zeros"

definition empty_batch :: ndarray where
  "empty_batch = NDArray 0 1 zeros"

definition example_batch :: ndarray where
  "example_batch = NDArray 3 1 zeros"

definition example_regression_dataset :: "(ndarray, unit) dataset" where
  "example_regression_dataset =
     \<lparr>iterate_once = (\<lambda>b. [(example_batch, NDArray 3 1 zeros)]), x_shape0 = 3,
      get_validation_accuracy = (\<lambda>m. 1)\<rparr>"

definition example_digit :: DigitClassificationModel where
  "example_digit = digit_init zeros zeros zeros zeros"

definition example_images :: ndarray where
  "example_images = NDArray 2 784 zeros"

definition example_digit_dataset :: "(ndarray, DigitClassificationModel) dataset" where
  "example_digit_dataset =
     \<lparr>iterate_once = (\<lambda>b. [(example_images, NDArray 2 10 zeros)]), x_shape0 = 2,
      get_validation_accuracy = (\<lambda>m. 1)\<rparr>"

definition example_language_dataset :: "(ndarray list, LanguageIDModel) dataset" where
  "example_language_dataset =
     \<lparr>iterate_once = (\<lambda>b. [(example_word, example_labels)]), x_shape0 = 2,
      get_validation_accuracy = (\<lambda>m. 1)\<rparr>"

definition other_regression_dataset :: "(ndarray, unit) dataset" where
  "other_regression_dataset =
     \<lparr>iterate_once = (\<lambda>b. if b = 3 then [(example_batch, NDArray 3 1 zeros)] else []),
      x_shape0 = 3, get_validation_accuracy = (\<lambda>m. 0)\<rparr>"

definition example_points :: "(ndarray, unit) dataset" where
  "example_points =
     \<lparr>iterate_once = (\<lambda>b. if b = 1
          then [(of_rows 2 [[3, - 1]], of_rows 1 [[1]]), (of_rows 2 [[- 1, - 1]], of_rows 1 [[- 1]])]
          else []),
      x_shape0 = 2, get_validation_accuracy = (\<lambda>m. 0)\<rparr>"

definition example_normal :: "nat \<Rightarrow> real" where
  "example_normal j = 1"

definition zero_perceptron :: PerceptronModel where
  "zero_perceptron = \<lparr>perc_w = of_rows 2 [[0, 0]]\<rparr>"

definition line_points :: "(ndarray, unit) dataset" where
  "line_points =
     \<lparr>iterate_once = (\<lambda>b. if b = 1
          then [(of_rows 1 [[1]], of_rows 1 [[1]]), (of_rows 1 [[2]], of_rows 1 [[- 1]])]
          else []),
      x_shape0 = 2, get_validation_accuracy = (\<lambda>m. 0)\<rparr>"

definition line_normal :: "nat \<Rightarrow> real" where
  "line_normal j = - 1"

definition line_perceptron :: PerceptronModel where
  "line_perceptron = \<lparr>perc_w = of_rows 1 [[1 / 2]]\<rparr>"

definition quarters :: "nat \<Rightarrow> nat \<Rightarrow> real" where
  "quarters i j = 1 / 4"

definition quarter_model :: RegressionModel where
  "quarter_model = example_regression\<lparr>reg_batch_size := 4\<rparr>"

definition quarter_inputs :: ndarray where
  "quarter_inputs = NDArray 4 1 zeros"

definition quarter_targets :: ndarray where
  "quarter_targets = NDArray 4 1 quarters"

definition quarter_points :: "(ndarray, unit) dataset" where
  "quarter_points =
     \<lparr>iterate_once = (\<lambda>b. if b = 4 then [(quarter_inputs, quarter_targets)] else []),
      x_shape0 = 4, get_validation_accuracy = (\<lambda>m. 0)\<rparr>"

text \<open>
  An update whose addend is lost to rounding, as float64 loses \<open>2\<^sup>-\<^sup>6\<^sup>0\<close> against \<open>0.5\<close>.
\<close>

definition absorbing_update :: updatef where
  "absorbing_update param direction multiplier =
     (if shape direction = shape param then Inr param else Inl AssertionError)"

definition tiny_points :: "(ndarray, unit) dataset" where
  "tiny_points =
     \<lparr>iterate_once = (\<lambda>b. if b = 1 then [(of_rows 1 [[1 / 2 ^ 60]], of_rows 1 [[- 1]])] else []),
      x_shape0 = 1, get_validation_accuracy = (\<lambda>m. 0)\<rparr>"

section \<open>Sequencing, loops and indexing\<close>

lemmas nn_defs = DotProduct_def as_scalar_def update_def Linear_def AddBias_def Add_def
  ReLU_def Parameter_def shape_def of_rows_def

lemmas example_defs = example_regression_def example_digit_def example_language_def
  example_batch_def empty_batch_def example_images_def example_word_def example_labels_def
  example_loss_def example_gradients_def example_perceptron_def example_point_def

lemmas init_defs = regression_init_def digit_init_def language_init_def

lemma and_then_Inr [simp]: "and_then (Inr v) f = f v"
  by (simp add: and_then_def)

lemma and_then_Inl [simp]: "and_then (Inl e) f = Inl e"
  by (simp add: and_then_def)

lemma and_then_eq_Inr: "and_then m f = Inr r \<longleftrightarrow> (\<exists>v. m = Inr v \<and> f v = Inr r)"
  by (cases m) simp_all

lemma and_then_eq_Inl:
  "and_then m f = Inl e \<longleftrightarrow> m = Inl e \<or> (\<exists>v. m = Inr v \<and> f v = Inl e)"
  by (cases m) simp_all

lemma and_then_assoc: "and_then (and_then m f) g = and_then m (\<lambda>v. and_then (f v) g)"
  by (cases m) simp_all

lemma for_each_append:
  "for_each body (bs @ cs) s = and_then (for_each body bs s) (for_each body cs)"
  by (induction bs arbitrary: s) (auto simp: and_then_def split: sum.splits)

lemma for_each_no_error:
  "(\<And>s b. b \<in> set bs \<Longrightarrow> body s b \<noteq> Inl e) \<Longrightarrow> for_each body bs s \<noteq> Inl e"
  by (induction bs arbitrary: s) (auto simp: and_then_eq_Inl)

lemma getitem_Nil [simp]: "getitem [] i = Inl IndexError"
  by (simp add: getitem_def)

lemma getitem_in [simp]: "i < length xs \<Longrightarrow> getitem xs i = Inr (xs ! i)"
  by (simp add: getitem_def)

lemma Linear_not_IndexError [simp]: "Linear a b \<noteq> Inl IndexError"
  by (simp add: Linear_def)

lemma Add_not_IndexError [simp]: "Add a b \<noteq> Inl IndexError"
  by (simp add: Add_def)

lemma for_each_invariant:
  assumes "for_each body bs s = Inr s'" and "P s"
    and "\<And>s b s'. P s \<Longrightarrow> b \<in> set bs \<Longrightarrow> body s b = Inr s' \<Longrightarrow> P s'"
  shows "P s'"
  using assms
proof (induction bs arbitrary: s)
  case Nil
  then show ?case by simp
next
  case (Cons b bs)
  from Cons.prems(1) obtain s1 where s1: "body s b = Inr s1" "for_each body bs s1 = Inr s'"
    by (auto simp: and_then_eq_Inr)
  have "P s1"
    by (rule Cons.prems(3) [of s b s1]) (simp_all add: Cons.prems(2) s1(1))
  show ?case
  proof (rule Cons.IH [OF s1(2) \<open>P s1\<close>])
    fix t c t'
    assume "P t" "c \<in> set bs" "body t c = Inr t'"
    then show "P t'" using Cons.prems(3) [of t c t'] by simp
  qed
qed

section \<open>The prediction of the perceptron\<close>

lemma example_score:
  "and_then (perceptron_run example_perceptron example_point) as_scalar = Inr 1"
  by (simp add: perceptron_run_def example_perceptron_def example_point_def nn_defs
      eval_nat_numeral)

text \<open>
  C2. The score of \<open>x\<close> is the number held by the node that \<^verbatim>\<open>run(x)\<close> returns. Whenever
  that score exists, \<^verbatim>\<open>get_prediction(x)\<close> returns \<open>1\<close> if the score is at least \<open>0\<close> and
  \<open>-1\<close> otherwise; and whatever \<^verbatim>\<open>get_prediction\<close> returns is \<open>1\<close> or \<open>-1\<close>.
\<close>

theorem get_prediction_sign:
  "(and_then (perceptron_run self x) as_scalar = Inr score
      \<longrightarrow> get_prediction self x = Inr (if score \<ge> 0 then 1 else - 1))
   \<and> (get_prediction self x = Inr p \<longrightarrow> p = 1 \<or> p = - 1)"
  by (auto simp: get_prediction_def and_then_eq_Inr split: if_splits)

theorem get_prediction_sign_witness:
  "and_then (perceptron_run example_perceptron example_point) as_scalar = Inr 1
   \<and> get_prediction example_perceptron example_point = Inr 1"
  using get_prediction_sign [of example_perceptron example_point 1] example_score
  by simp

section \<open>The shapes of the outputs\<close>

lemma init_shapes:
  "regression_shapes (regression_init i1 i2 i3 i4) = [(1, 400), (1, 400), (400, 1), (1, 1)]"
  "digit_shapes (digit_init i1 i2 i3 i4) = [(784, 100), (1, 100), (100, 10), (1, 10)]"
  "language_shapes (language_init i1 i2 i3) = [(47, 100), (100, 100), (100, 5)]"
  by (simp_all add: regression_shapes_def regression_init_def digit_shapes_def digit_init_def
      language_shapes_def language_init_def nn_defs Let_def)

lemma perceptron_run_shape:
  "nrows (perc_w self) = 1 \<Longrightarrow> ncols x = ncols (perc_w self) \<Longrightarrow>
   \<exists>out. perceptron_run self x = Inr out \<and> shape out = (nrows x, 1)"
  by (simp add: perceptron_run_def nn_defs)

lemma regression_run_shape:
  "regression_shapes self = [(1, 400), (1, 400), (400, 1), (1, 1)] \<Longrightarrow> ncols x = 1 \<Longrightarrow>
   \<exists>self1 out. regression_run self x = Inr (self1, out) \<and> shape out = (nrows x, 1)"
  by (simp add: regression_run_def regression_shapes_def nn_defs Let_def)

lemma digit_run_shape:
  "digit_shapes self = [(784, 100), (1, 100), (100, 10), (1, 10)] \<Longrightarrow> ncols x = 784 \<Longrightarrow>
   \<exists>self1 out. digit_run self x = Inr (self1, out) \<and> shape out = (nrows x, 10)"
  by (simp add: digit_run_def digit_shapes_def nn_defs Let_def)

lemma language_step_shape:
  assumes "language_shapes self = [(47, 100), (100, 100), (100, 5)]"
    and "i < length xs" and "shape (xs ! i) = (n, 47)" and "shape f = (n, 100)"
  shows "\<exists>f'. language_step self xs f i = Inr f' \<and> shape f' = (n, 100)"
  using assms by (simp add: language_step_def language_shapes_def nn_defs)

lemma language_loop_shape:
  assumes "language_shapes self = [(47, 100), (100, 100), (100, 5)]"
    and "\<forall>x \<in> set xs. shape x = (n, 47)" and "set is \<subseteq> {..<length xs}" and "shape f = (n, 100)"
  shows "\<exists>f'. for_each (language_step self xs) is f = Inr f' \<and> shape f' = (n, 100)"
  using assms(3,4)
proof (induction "is" arbitrary: f)
  case Nil
  then show ?case by simp
next
  case (Cons i "is")
  then have i: "i < length xs" by simp
  then have "shape (xs ! i) = (n, 47)" using assms(2) by simp
  from language_step_shape [OF assms(1) i this Cons.prems(2)]
  obtain f' where f': "language_step self xs f i = Inr f'" "shape f' = (n, 100)" by blast
  from Cons.IH [OF _ f'(2)] Cons.prems(1) f'(1) show ?case by simp
qed

lemma language_run_shape:
  assumes "language_shapes self = [(47, 100), (100, 100), (100, 5)]"
    and "xs \<noteq> []" and "\<forall>x \<in> set xs. shape x = (n, 47)"
  shows "\<exists>self1 out. language_run self xs = Inr (self1, out) \<and> shape out = (n, 5)"
proof -
  define self1 where
    "self1 = (if lang_batch_size self = 0 then self\<lparr>lang_batch_size := nrows (xs ! 0)\<rparr> else self)"
  have sh1: "language_shapes self1 = [(47, 100), (100, 100), (100, 5)]"
    using assms(1) by (simp add: self1_def language_shapes_def)
  have l: "0 < length xs" using assms(2) by simp
  then have x0: "shape (xs ! 0) = (n, 47)" using assms(3) by simp
  then obtain a0 where a0: "Linear (xs ! 0) (lang_w_1 self1) = Inr a0" "shape (ReLU a0) = (n, 100)"
    using sh1 by (simp add: language_shapes_def nn_defs)
  have "set [0..<length xs] \<subseteq> {..<length xs}" by auto
  from language_loop_shape [OF sh1 assms(3) this a0(2)]
  obtain f where f: "for_each (language_step self1 xs) [0..<length xs] (ReLU a0) = Inr f"
    "shape f = (n, 100)" by blast
  obtain out where out: "Linear f (lang_w_3 self1) = Inr out" "shape out = (n, 5)"
    using sh1 f(2) by (simp add: language_shapes_def nn_defs)
  have "language_run self xs = Inr (self1, out)"
    using l a0(1) f(1) out(1)
    by (cases "lang_batch_size self = 0") (simp_all add: language_run_def self1_def)
  with out(2) show ?thesis by blast
qed

text \<open>
  C6, as amended. On a well-shaped input batch \<^verbatim>\<open>run\<close> returns a node of shape
  (batch_size, output_dimension), where the output dimension is \<open>1\<close> for
  \<^verbatim>\<open>PerceptronModel\<close> (one score per row), \<open>1\<close> for \<^verbatim>\<open>RegressionModel\<close>, \<open>10\<close> for
  \<^verbatim>\<open>DigitClassificationModel\<close> and \<open>5\<close> for \<^verbatim>\<open>LanguageIDModel\<close>. The parameters have the
  shapes that \<^verbatim>\<open>__init__\<close> gives them.
\<close>

theorem run_output_shape:
  "(nrows (perc_w pself) = 1 \<and> ncols px = ncols (perc_w pself)
      \<longrightarrow> (\<exists>out. perceptron_run pself px = Inr out \<and> shape out = (nrows px, 1)))
   \<and> (regression_shapes rself = [(1, 400), (1, 400), (400, 1), (1, 1)] \<and> ncols rx = 1
      \<longrightarrow> (\<exists>self1 out. regression_run rself rx = Inr (self1, out)
            \<and> shape out = (nrows rx, 1)))
   \<and> (digit_shapes dself = [(784, 100), (1, 100), (100, 10), (1, 10)] \<and> ncols dx = 784
      \<longrightarrow> (\<exists>self1 out. digit_run dself dx = Inr (self1, out) \<and> shape out = (nrows dx, 10)))
   \<and> (language_shapes lself = [(47, 100), (100, 100), (100, 5)] \<and> xs \<noteq> []
        \<and> (\<forall>x \<in> set xs. shape x = (n, 47))
      \<longrightarrow> (\<exists>self1 out. language_run lself xs = Inr (self1, out) \<and> shape out = (n, 5)))"
  using perceptron_run_shape [of pself px] regression_run_shape [of rself rx]
    digit_run_shape [of dself dx] language_run_shape [of lself xs n]
  by blast

theorem run_output_shape_witness:
  "nrows (perc_w example_perceptron) = 1
   \<and> ncols example_point = ncols (perc_w example_perceptron)
   \<and> regression_shapes example_regression = [(1, 400), (1, 400), (400, 1), (1, 1)]
   \<and> ncols example_batch = 1
   \<and> digit_shapes example_digit = [(784, 100), (1, 100), (100, 10), (1, 10)]
   \<and> ncols example_images = 784
   \<and> language_shapes example_language = [(47, 100), (100, 100), (100, 5)]
   \<and> example_word \<noteq> []
   \<and> list_all (\<lambda>x. shape x = (2, 47)) example_word
   \<and> (\<exists>out. perceptron_run example_perceptron example_point = Inr out
          \<and> shape out = (nrows example_point, 1))
   \<and> (\<exists>self1 out. regression_run example_regression example_batch = Inr (self1, out)
          \<and> shape out = (nrows example_batch, 1))
   \<and> (\<exists>self1 out. digit_run example_digit example_images = Inr (self1, out)
          \<and> shape out = (nrows example_images, 10))
   \<and> (\<exists>self1 out. language_run example_language example_word = Inr (self1, out)
          \<and> shape out = (2, 5))"
proof -
  have h: "nrows (perc_w example_perceptron) = 1"
    "ncols example_point = ncols (perc_w example_perceptron)"
    "regression_shapes example_regression = [(1, 400), (1, 400), (400, 1), (1, 1)]"
    "ncols example_batch = 1"
    "digit_shapes example_digit = [(784, 100), (1, 100), (100, 10), (1, 10)]"
    "ncols example_images = 784"
    "language_shapes example_language = [(47, 100), (100, 100), (100, 5)]"
    "example_word \<noteq> []"
    "\<forall>x \<in> set example_word. shape x = (2, 47)"
    by (simp_all add: init_shapes example_regression_def example_digit_def example_language_def)
      (simp_all add: example_defs nn_defs)
  from run_output_shape [of example_perceptron example_point example_regression example_batch
      example_digit example_images example_language example_word 2] h
  show ?thesis by (simp add: list_all_iff)
qed

text \<open>
  The node that \<^verbatim>\<open>PerceptronModel.run\<close> returns for a point of two dimensions has shape
  \<open>(1, 1)\<close>, not \<open>(1, 2)\<close>.
\<close>

theorem perceptron_run_shape_counterexample:
  "map_sum id shape (perceptron_run example_perceptron example_point) = Inr (1, 1)
   \<and> map_sum id shape (perceptron_run example_perceptron example_point)
       \<noteq> Inr (nrows example_point, 2)"
  by (simp add: perceptron_run_def example_defs nn_defs)

section \<open>What run changes\<close>

lemma regression_run_state:
  "regression_run self x = Inr (self1, out) \<Longrightarrow>
   self1 = self\<lparr>reg_batch_size := (if reg_batch_size self = 0 then nrows x else reg_batch_size self)\<rparr>"
  by (auto simp: regression_run_def Let_def and_then_eq_Inr split: if_splits)

lemma digit_run_state: "digit_run self x = Inr (self1, out) \<Longrightarrow> self1 = self"
  by (auto simp: digit_run_def Let_def and_then_eq_Inr)

lemma language_run_state:
  "language_run self xs = Inr (self1, out) \<Longrightarrow>
   self1 = self\<lparr>lang_batch_size :=
             (if lang_batch_size self = 0 then nrows (xs ! 0) else lang_batch_size self)\<rparr>"
  by (auto simp: language_run_def and_then_eq_Inr getitem_def split: if_splits)

lemma regression_run_again:
  "regression_run self x = Inr (self1, out) \<Longrightarrow> regression_run self1 x = Inr (self1, out)"
  by (auto simp: regression_run_def Let_def and_then_eq_Inr split: if_splits)

lemma digit_run_again:
  "digit_run self x = Inr (self1, out) \<Longrightarrow> digit_run self1 x = Inr (self1, out)"
  by (auto simp: digit_run_def Let_def and_then_eq_Inr split: if_splits)

lemma language_step_batch_size [simp]:
  "language_step (self\<lparr>lang_batch_size := b\<rparr>) = language_step self"
  by (auto simp: fun_eq_iff language_step_def)

lemma language_run_again:
  "language_run self xs = Inr (self1, out) \<Longrightarrow> language_run self1 xs = Inr (self1, out)"
  by (auto simp: language_run_def Let_def and_then_eq_Inr getitem_def split: if_splits)

lemma example_regression_run:
  "\<exists>out. regression_run example_regression example_batch
           = Inr (example_regression\<lparr>reg_batch_size := 3\<rparr>, out)"
  by (simp add: regression_run_def example_defs init_defs nn_defs Let_def)

lemma example_digit_run:
  "\<exists>out. digit_run example_digit example_images = Inr (example_digit, out)"
  by (simp add: digit_run_def example_defs init_defs nn_defs Let_def)

lemma example_language_run:
  "\<exists>out. language_run example_language example_word
           = Inr (example_language\<lparr>lang_batch_size := 2\<rparr>, out)"
proof -
  have "\<forall>x \<in> set example_word. shape x = (2, 47)"
    by (simp add: example_word_def shape_def)
  with language_run_shape [of example_language example_word 2]
  obtain self1 out where r: "language_run example_language example_word = Inr (self1, out)"
    by (auto simp: init_shapes example_language_def example_word_def)
  from language_run_state [OF r]
  have "self1 = example_language\<lparr>lang_batch_size := 2\<rparr>"
    by (simp add: example_language_def language_init_def example_word_def Let_def)
  with r show ?thesis by blast
qed

text \<open>
  C9, as amended. \<^verbatim>\<open>PerceptronModel.run\<close> returns a node and has no model to hand back.
  A call of \<^verbatim>\<open>run\<close> of the other models that returns leaves every field of the model as
  it was, but for the batch size of \<^verbatim>\<open>RegressionModel\<close> and \<^verbatim>\<open>LanguageIDModel\<close>: a call
  that finds it \<open>0\<close> writes the row count of its input, and a call that finds it non-zero
  leaves it alone. The parameters are never changed.
\<close>

theorem run_frame:
  "(regression_run rself rx = Inr (rself1, rout) \<longrightarrow>
      rself1 = rself\<lparr>reg_batch_size :=
                 (if reg_batch_size rself = 0 then nrows rx else reg_batch_size rself)\<rparr>)
   \<and> (digit_run dself dx = Inr (dself1, dout) \<longrightarrow> dself1 = dself)
   \<and> (language_run lself xs = Inr (lself1, lout) \<longrightarrow>
      lself1 = lself\<lparr>lang_batch_size :=
                 (if lang_batch_size lself = 0 then nrows (xs ! 0) else lang_batch_size lself)\<rparr>)"
  using regression_run_state digit_run_state language_run_state by blast

theorem run_frame_witness:
  "map_sum id fst (regression_run example_regression example_batch)
     = Inr (example_regression\<lparr>reg_batch_size := 3\<rparr>)
   \<and> map_sum id fst (digit_run example_digit example_images) = Inr example_digit
   \<and> map_sum id fst (language_run example_language example_word)
     = Inr (example_language\<lparr>lang_batch_size := 2\<rparr>)"
proof -
  obtain rout where r: "regression_run example_regression example_batch
      = Inr (example_regression\<lparr>reg_batch_size := 3\<rparr>, rout)"
    using example_regression_run by blast
  obtain dout where d: "digit_run example_digit example_images = Inr (example_digit, dout)"
    using example_digit_run by blast
  obtain lout where l: "language_run example_language example_word
      = Inr (example_language\<lparr>lang_batch_size := 2\<rparr>, lout)"
    using example_language_run by blast
  from run_frame [of example_regression example_batch _ rout example_digit example_images
      example_digit dout example_language example_word _ lout] r d l
  show ?thesis by simp
qed

text \<open>
  The batch size is not always written on the first call: after a first call on a batch
  of no rows it is still \<open>0\<close>, and the second call writes it.
\<close>

theorem batch_size_second_call_counterexample:
  "map_sum id reg_batch_size (regression_calls example_regression [empty_batch]) = Inr 0
   \<and> map_sum id reg_batch_size (regression_calls example_regression [empty_batch, example_batch])
       = Inr 3"
  by (simp add: regression_calls_def regression_run_def example_defs init_defs nn_defs Let_def)

text \<open>
  C7. \<^verbatim>\<open>PerceptronModel.run\<close> is the dot product of its input and the weights, and reads
  nothing else. For the other models, a call of \<^verbatim>\<open>run\<close> that returns a node is followed,
  on the model as that call left it and the same input, by a call that returns the same
  node.
\<close>

theorem run_twice_same_output:
  "perceptron_run pself px = DotProduct px (perc_w pself)
   \<and> (regression_run rself rx = Inr (rself1, rout)
        \<longrightarrow> regression_run rself1 rx = Inr (rself1, rout))
   \<and> (digit_run dself dx = Inr (dself1, dout) \<longrightarrow> digit_run dself1 dx = Inr (dself1, dout))
   \<and> (language_run lself xs = Inr (lself1, lout)
        \<longrightarrow> language_run lself1 xs = Inr (lself1, lout))"
  using regression_run_again digit_run_again language_run_again
  by (auto simp: perceptron_run_def)

theorem run_twice_same_output_witness:
  "\<exists>rout dout lout.
     regression_run example_regression example_batch
       = Inr (example_regression\<lparr>reg_batch_size := 3\<rparr>, rout)
     \<and> regression_run (example_regression\<lparr>reg_batch_size := 3\<rparr>) example_batch
       = Inr (example_regression\<lparr>reg_batch_size := 3\<rparr>, rout)
     \<and> digit_run example_digit example_images = Inr (example_digit, dout)
     \<and> language_run example_language example_word
       = Inr (example_language\<lparr>lang_batch_size := 2\<rparr>, lout)
     \<and> language_run (example_language\<lparr>lang_batch_size := 2\<rparr>) example_word
       = Inr (example_language\<lparr>lang_batch_size := 2\<rparr>, lout)"
proof -
  obtain rout where r: "regression_run example_regression example_batch
      = Inr (example_regression\<lparr>reg_batch_size := 3\<rparr>, rout)"
    using example_regression_run by blast
  obtain dout where d: "digit_run example_digit example_images = Inr (example_digit, dout)"
    using example_digit_run by blast
  obtain lout where l: "language_run example_language example_word
      = Inr (example_language\<lparr>lang_batch_size := 2\<rparr>, lout)"
    using example_language_run by blast
  from run_twice_same_output [of example_perceptron example_point
      example_regression example_batch _ rout example_digit example_images
      example_digit dout example_language example_word _ lout] r d l
  show ?thesis by blast
qed

section \<open>The batch size of RegressionModel\<close>

lemma regression_batch_batch_size:
  "regression_batch L G (losses, self) batch = Inr (losses1, self1) \<Longrightarrow>
   reg_batch_size self \<noteq> 0 \<Longrightarrow> reg_batch_size self1 = reg_batch_size self"
  by (auto simp: regression_batch_def regression_get_loss_def and_then_eq_Inr Let_def
      dest!: regression_run_state)

lemma regression_epoch_batch_size:
  assumes "regression_epoch L G ds self = Inr (losses, self1)" and "reg_batch_size self \<noteq> 0"
  shows "reg_batch_size self1 = reg_batch_size self"
proof -
  have "reg_batch_size (snd (losses, self1)) = reg_batch_size self"
    using assms(1) unfolding regression_epoch_def
  proof (rule for_each_invariant)
    show "reg_batch_size (snd (0::real, self)) = reg_batch_size self" by simp
  next
    fix s b s'
    assume "reg_batch_size (snd s) = reg_batch_size self" "regression_batch L G s b = Inr s'"
    then show "reg_batch_size (snd s') = reg_batch_size self"
      using assms(2) regression_batch_batch_size [of L G "fst s" "snd s" b "fst s'" "snd s'"]
      by simp
  qed
  then show ?thesis by simp
qed

lemma regression_epoch_dataset:
  "iterate_once ds' (reg_batch_size self) = iterate_once ds (reg_batch_size self) \<Longrightarrow>
   regression_epoch L G ds' self = regression_epoch L G ds self"
  by (simp add: regression_epoch_def)

lemma regression_train_dataset_le:
  fixes ds :: "(ndarray, 'm) dataset"
  assumes "regression_train L G ds self = Some r"
  shows "\<forall>ds' :: (ndarray, 'm) dataset. reg_batch_size self \<noteq> 0 \<longrightarrow>
     iterate_once ds' (reg_batch_size self) = iterate_once ds (reg_batch_size self) \<longrightarrow>
     x_shape0 ds' = x_shape0 ds \<longrightarrow> regression_train L G ds' self = Some r"
proof (rule regression_train.raw_induct
    [where P = "\<lambda>L G ds self r. \<forall>ds' :: (ndarray, 'm) dataset. reg_batch_size self \<noteq> 0 \<longrightarrow>
       iterate_once ds' (reg_batch_size self) = iterate_once ds (reg_batch_size self) \<longrightarrow>
       x_shape0 ds' = x_shape0 ds \<longrightarrow> regression_train L G ds' self = Some r", OF _ assms])
  fix train L G and ds :: "(ndarray, 'm) dataset" and m res
  assume "1":
    "\<And>L G (ds :: (ndarray, 'm) dataset) self r. train L G ds self = Some r \<Longrightarrow>
       \<forall>ds' :: (ndarray, 'm) dataset. reg_batch_size self \<noteq> 0 \<longrightarrow>
       iterate_once ds' (reg_batch_size self) = iterate_once ds (reg_batch_size self) \<longrightarrow>
       x_shape0 ds' = x_shape0 ds \<longrightarrow> regression_train L G ds' self = Some r"
    "(case regression_epoch L G ds m of
        Inl e \<Rightarrow> Some (Inl e)
      | Inr (losses, self1) \<Rightarrow>
          if x_shape0 ds = 0 then Some (Inl ZeroDivisionError)
          else if losses / real (x_shape0 ds) < 0.02 then Some (Inr self1)
          else train L G ds self1) = Some res"
  show "\<forall>ds' :: (ndarray, 'm) dataset. reg_batch_size m \<noteq> 0 \<longrightarrow>
       iterate_once ds' (reg_batch_size m) = iterate_once ds (reg_batch_size m) \<longrightarrow>
       x_shape0 ds' = x_shape0 ds \<longrightarrow> regression_train L G ds' m = Some res"
  proof (intro allI impI)
    fix ds' :: "(ndarray, 'm) dataset"
    assume b: "reg_batch_size m \<noteq> 0"
      and it: "iterate_once ds' (reg_batch_size m) = iterate_once ds (reg_batch_size m)"
      and n: "x_shape0 ds' = x_shape0 ds"
    note eq = "1"(2)
    have ep: "regression_epoch L G ds' m = regression_epoch L G ds m"
      using it by (simp add: regression_epoch_def)
    show "regression_train L G ds' m = Some res"
    proof (cases "regression_epoch L G ds m")
      case (Inl e)
      with eq ep show ?thesis
        by (subst regression_train.simps) simp
    next
      case (Inr p)
      obtain losses self1 where p: "p = (losses, self1)" by (cases p)
      have bs1: "reg_batch_size self1 = reg_batch_size m"
        using regression_epoch_batch_size [of L G ds m losses self1] Inr p b by simp
      show ?thesis
      proof (cases "x_shape0 ds = 0 \<or> losses / real (x_shape0 ds) < 0.02")
        case True
        with eq ep Inr p n show ?thesis
          by (subst regression_train.simps) (auto split: if_splits)
      next
        case False
        with eq Inr p have "train L G ds self1 = Some res"
          by (auto split: if_splits)
        from "1"(1) [OF this] bs1 b it n
        have "regression_train L G ds' self1 = Some res" by simp
        with False ep Inr p n show ?thesis
          by (subst regression_train.simps) (auto split: if_splits)
      qed
    qed
  qed
qed

lemma regression_train_dataset:
  fixes ds ds' :: "(ndarray, 'm) dataset"
  assumes "reg_batch_size self \<noteq> 0"
    and "iterate_once ds' (reg_batch_size self) = iterate_once ds (reg_batch_size self)"
    and "x_shape0 ds' = x_shape0 ds"
  shows "regression_train L G ds' self = regression_train L G ds self"
proof (cases "regression_train L G ds self")
  case (Some r)
  with regression_train_dataset_le [OF Some, rule_format, of ds'] assms show ?thesis by simp
next
  case None
  show ?thesis
  proof (cases "regression_train L G ds' self")
    case (Some r)
    with regression_train_dataset_le [OF Some, rule_format, of ds] assms None show ?thesis
      by simp
  next
    case N: None
    with None show ?thesis by simp
  qed
qed

lemma regression_calls_batch_size:
  "regression_calls self xs = Inr self1 \<Longrightarrow>
   reg_batch_size self1 =
     (if reg_batch_size self \<noteq> 0 then reg_batch_size self
      else case filter (\<lambda>x. nrows x \<noteq> 0) xs of [] \<Rightarrow> 0 | x # _ \<Rightarrow> nrows x)"
proof (induction xs arbitrary: self)
  case Nil
  then show ?case by (simp add: regression_calls_def)
next
  case (Cons x xs)
  from Cons.prems obtain m out where m: "regression_run self x = Inr (m, out)"
    "regression_calls m xs = Inr self1"
    by (auto simp: regression_calls_def and_then_eq_Inr)
  from regression_run_state [OF m(1)] Cons.IH [OF m(2)] show ?case
    by (auto split: list.splits)
qed

text \<open>
  C5, as amended. A new \<^verbatim>\<open>RegressionModel\<close> has batch size \<open>0\<close>. After any calls of
  \<^verbatim>\<open>run\<close> the batch size is the row count of the first input batch that had any rows
  (and still \<open>0\<close> if there was none). Each pass of \<^verbatim>\<open>train\<close> iterates the dataset with
  the batch size the model has when the pass starts; once that is non-zero, no pass
  changes it, and \<^verbatim>\<open>train\<close> depends on the dataset only through its batches of that
  size and its number of examples.
\<close>

theorem regression_batch_size_detected:
  fixes ds ds' :: "(ndarray, 'm) dataset"
  shows
  "reg_batch_size (regression_init i1 i2 i3 i4) = 0
   \<and> (regression_calls self xs = Inr self1 \<longrightarrow>
        reg_batch_size self1 =
          (if reg_batch_size self \<noteq> 0 then reg_batch_size self
           else case filter (\<lambda>x. nrows x \<noteq> 0) xs of [] \<Rightarrow> 0 | x # _ \<Rightarrow> nrows x))
   \<and> regression_epoch SquareLoss gradients ds self =
        for_each (regression_batch SquareLoss gradients)
          (iterate_once ds (reg_batch_size self)) (0, self)
   \<and> (reg_batch_size self \<noteq> 0
        \<and> regression_epoch SquareLoss gradients ds self = Inr (losses, self2)
        \<longrightarrow> reg_batch_size self2 = reg_batch_size self)
   \<and> (reg_batch_size self \<noteq> 0
        \<and> iterate_once ds' (reg_batch_size self) = iterate_once ds (reg_batch_size self)
        \<and> x_shape0 ds' = x_shape0 ds
        \<longrightarrow> regression_train SquareLoss gradients ds' self
            = regression_train SquareLoss gradients ds self)"
  using regression_calls_batch_size [of self xs self1]
    regression_epoch_batch_size [of SquareLoss gradients ds self losses self2]
    regression_train_dataset [of self ds' ds SquareLoss gradients]
  by (simp add: regression_init_def regression_epoch_def)

theorem regression_batch_size_detected_witness:
  "map_sum id reg_batch_size (regression_calls example_regression [example_batch]) = Inr 3
   \<and> iterate_once other_regression_dataset 3 = iterate_once example_regression_dataset 3
   \<and> regression_train example_loss example_gradients other_regression_dataset
        (example_regression\<lparr>reg_batch_size := 3\<rparr>)
      = regression_train example_loss example_gradients example_regression_dataset
        (example_regression\<lparr>reg_batch_size := 3\<rparr>)"
proof -
  obtain out where r: "regression_run example_regression example_batch
      = Inr (example_regression\<lparr>reg_batch_size := 3\<rparr>, out)"
    using example_regression_run by blast
  then have c: "regression_calls example_regression [example_batch]
      = Inr (example_regression\<lparr>reg_batch_size := 3\<rparr>)"
    by (simp add: regression_calls_def)
  have d: "iterate_once other_regression_dataset 3 = iterate_once example_regression_dataset 3"
    "x_shape0 other_regression_dataset = x_shape0 example_regression_dataset"
    by (simp_all add: other_regression_dataset_def example_regression_dataset_def)
  from regression_batch_size_detected [where xs = "[example_batch]"
      and self = "example_regression\<lparr>reg_batch_size := 3\<rparr>"
      and SquareLoss = example_loss and gradients = example_gradients
      and ds = example_regression_dataset and ds' = other_regression_dataset] c d
  show ?thesis by simp
qed

text \<open>
  The first input batch passed to \<^verbatim>\<open>run\<close> may have no rows: the batch size then comes
  from a later batch, and \<^verbatim>\<open>train\<close> iterates with that one. And on a new model, on which
  \<^verbatim>\<open>run\<close> has not been called, \<^verbatim>\<open>train\<close> iterates with batch size \<open>0\<close>.
\<close>

theorem first_batch_empty_counterexample:
  "nrows empty_batch = 0
   \<and> map_sum id reg_batch_size (regression_calls example_regression [empty_batch, example_batch])
       \<noteq> Inr (nrows empty_batch)
   \<and> and_then (regression_calls example_regression [empty_batch, example_batch])
        (regression_epoch example_loss example_gradients example_regression_dataset)
      = for_each (regression_batch example_loss example_gradients)
          (iterate_once example_regression_dataset 3)
          (0, example_regression\<lparr>reg_batch_size := 3\<rparr>)
   \<and> regression_epoch example_loss example_gradients example_regression_dataset
        example_regression
      = for_each (regression_batch example_loss example_gradients)
          (iterate_once example_regression_dataset 0) (0, example_regression)"
  by (simp add: regression_calls_def regression_run_def regression_epoch_def
      example_regression_def empty_batch_def example_batch_def init_defs nn_defs Let_def)

section \<open>The training loops of the networks\<close>

lemma regression_train_converged:
  fixes ds :: "(ndarray, 'm) dataset"
  assumes "regression_train L G ds self = Some res"
  shows "\<forall>self'. res = Inr self' \<longrightarrow>
     (\<exists>self0 losses. regression_epoch L G ds self0 = Inr (losses, self')
        \<and> x_shape0 ds \<noteq> 0 \<and> losses / real (x_shape0 ds) < 0.02)"
proof (rule regression_train.raw_induct
    [where P = "\<lambda>L G (ds :: (ndarray, 'm) dataset) self res. \<forall>self'. res = Inr self' \<longrightarrow>
       (\<exists>self0 losses. regression_epoch L G ds self0 = Inr (losses, self')
          \<and> x_shape0 ds \<noteq> 0 \<and> losses / real (x_shape0 ds) < 0.02)", OF _ assms])
  fix train L G and ds :: "(ndarray, 'm) dataset" and m res
  assume IH:
    "\<And>L G (ds :: (ndarray, 'm) dataset) self res. train L G ds self = Some res \<Longrightarrow>
       \<forall>self'. res = Inr self' \<longrightarrow>
       (\<exists>self0 losses. regression_epoch L G ds self0 = Inr (losses, self')
          \<and> x_shape0 ds \<noteq> 0 \<and> losses / real (x_shape0 ds) < 0.02)"
    and eq: "(case regression_epoch L G ds m of
        Inl e \<Rightarrow> Some (Inl e)
      | Inr (losses, self1) \<Rightarrow>
          if x_shape0 ds = 0 then Some (Inl ZeroDivisionError)
          else if losses / real (x_shape0 ds) < 0.02 then Some (Inr self1)
          else train L G ds self1) = Some res"
  show "\<forall>self'. res = Inr self' \<longrightarrow>
       (\<exists>self0 losses. regression_epoch L G ds self0 = Inr (losses, self')
          \<and> x_shape0 ds \<noteq> 0 \<and> losses / real (x_shape0 ds) < 0.02)"
  proof (cases "regression_epoch L G ds m")
    case (Inl e)
    with eq show ?thesis by auto
  next
    case (Inr p)
    obtain losses self1 where p: "p = (losses, self1)" by (cases p)
    show ?thesis
    proof (cases "x_shape0 ds = 0 \<or> losses / real (x_shape0 ds) < 0.02")
      case True
      with eq Inr p show ?thesis by (auto split: if_splits)
    next
      case False
      with eq Inr p have "train L G ds self1 = Some res" by (auto split: if_splits)
      from IH [OF this] show ?thesis .
    qed
  qed
qed

lemma digit_train_converged:
  assumes "digit_train L G ds self = Some res"
  shows "\<forall>self'. res = Inr self' \<longrightarrow>
     (\<exists>self0. digit_epoch L G ds self0 = Inr self') \<and> get_validation_accuracy ds self' \<ge> 0.975"
proof (rule digit_train.raw_induct
    [where P = "\<lambda>L G ds self res. \<forall>self'. res = Inr self' \<longrightarrow>
       (\<exists>self0. digit_epoch L G ds self0 = Inr self')
       \<and> get_validation_accuracy ds self' \<ge> 0.975", OF _ assms])
  fix train L G ds m res
  assume IH:
    "\<And>L G ds self res. train L G ds self = Some res \<Longrightarrow>
       \<forall>self'. res = Inr self' \<longrightarrow>
       (\<exists>self0. digit_epoch L G ds self0 = Inr self')
       \<and> get_validation_accuracy ds self' \<ge> 0.975"
    and eq: "(case digit_epoch L G ds m of
        Inl e \<Rightarrow> Some (Inl e)
      | Inr self1 \<Rightarrow>
          if get_validation_accuracy ds self1 \<ge> 0.975 then Some (Inr self1)
          else train L G ds self1) = Some res"
  show "\<forall>self'. res = Inr self' \<longrightarrow>
       (\<exists>self0. digit_epoch L G ds self0 = Inr self')
       \<and> get_validation_accuracy ds self' \<ge> 0.975"
  proof (cases "digit_epoch L G ds m")
    case (Inl e)
    with eq show ?thesis by auto
  next
    case (Inr self1)
    show ?thesis
    proof (cases "get_validation_accuracy ds self1 \<ge> 0.975")
      case True
      with eq Inr show ?thesis by auto
    next
      case False
      with eq Inr have "train L G ds self1 = Some res" by simp
      from IH [OF this] show ?thesis .
    qed
  qed
qed

lemma language_train_converged:
  assumes "language_train L G ds self = Some res"
  shows "\<forall>self'. res = Inr self' \<longrightarrow>
     (\<exists>self0. language_epoch L G ds self0 = Inr self') \<and> get_validation_accuracy ds self' \<ge> 0.83"
proof (rule language_train.raw_induct
    [where P = "\<lambda>L G ds self res. \<forall>self'. res = Inr self' \<longrightarrow>
       (\<exists>self0. language_epoch L G ds self0 = Inr self')
       \<and> get_validation_accuracy ds self' \<ge> 0.83", OF _ assms])
  fix train L G ds m res
  assume IH:
    "\<And>L G ds self res. train L G ds self = Some res \<Longrightarrow>
       \<forall>self'. res = Inr self' \<longrightarrow>
       (\<exists>self0. language_epoch L G ds self0 = Inr self')
       \<and> get_validation_accuracy ds self' \<ge> 0.83"
    and eq: "(case language_epoch L G ds m of
        Inl e \<Rightarrow> Some (Inl e)
      | Inr self1 \<Rightarrow>
          if get_validation_accuracy ds self1 \<ge> 0.83 then Some (Inr self1)
          else train L G ds self1) = Some res"
  show "\<forall>self'. res = Inr self' \<longrightarrow>
       (\<exists>self0. language_epoch L G ds self0 = Inr self')
       \<and> get_validation_accuracy ds self' \<ge> 0.83"
  proof (cases "language_epoch L G ds m")
    case (Inl e)
    with eq show ?thesis by auto
  next
    case (Inr self1)
    show ?thesis
    proof (cases "get_validation_accuracy ds self1 \<ge> 0.83")
      case True
      with eq Inr show ?thesis by auto
    next
      case False
      with eq Inr have "train L G ds self1 = Some res" by simp
      from IH [OF this] show ?thesis .
    qed
  qed
qed

lemma example_update_all:
  "\<exists>ps. update_all [a, b, c, d] [a, b, c, d] alpha = Inr ps \<and> length ps = 4"
  by (simp add: update_all_def upt_rec [of 0] upt_rec [of 1] upt_rec [of 2] upt_rec [of 3] 
      update_def eval_nat_numeral)

lemma example_update_all3:
  "\<exists>ps. update_all [a, b, c] [a, b, c] alpha = Inr ps \<and> length ps = 3"
  by (simp add: update_all_def upt_rec [of 0] upt_rec [of 1] upt_rec [of 2]
      update_def eval_nat_numeral)

lemma example_regression_epoch:
  "\<exists>m. regression_epoch example_loss example_gradients example_regression_dataset
          example_regression = Inr (0, m)"
proof -
  obtain out where r: "regression_run example_regression example_batch
      = Inr (example_regression\<lparr>reg_batch_size := 3\<rparr>, out)"
    using example_regression_run by blast
  obtain ps where ps: "update_all
     [reg_w_1 example_regression, reg_b_1 example_regression, reg_w_2 example_regression,
      reg_b_2 example_regression]
     [reg_w_1 example_regression, reg_b_1 example_regression, reg_w_2 example_regression,
      reg_b_2 example_regression] (reg_alpha example_regression) = Inr ps"
    using example_update_all by blast
  show ?thesis
    using r ps
    by (simp add: regression_epoch_def example_regression_dataset_def regression_batch_def
        regression_get_loss_def example_loss_def example_gradients_def as_scalar_def zeros_def)
qed

lemma example_regression_train:
  "\<exists>m. regression_train example_loss example_gradients example_regression_dataset
          example_regression = Some (Inr m)"
proof -
  obtain m where "regression_epoch example_loss example_gradients example_regression_dataset
          example_regression = Inr (0, m)"
    using example_regression_epoch by blast
  then show ?thesis
    by (subst regression_train.simps) (simp add: example_regression_dataset_def)
qed

lemma example_digit_train:
  "\<exists>m. digit_train example_loss example_gradients example_digit_dataset example_digit
          = Some (Inr m)"
proof -
  obtain out where r: "digit_run example_digit example_images = Inr (example_digit, out)"
    using example_digit_run by blast
  obtain ps where ps: "update_all
     [dig_w_1 example_digit, dig_b_1 example_digit, dig_w_2 example_digit, dig_b_2 example_digit]
     [dig_w_1 example_digit, dig_b_1 example_digit, dig_w_2 example_digit, dig_b_2 example_digit]
     (dig_alpha example_digit) = Inr ps"
    using example_update_all by blast
  have "\<exists>m. digit_epoch example_loss example_gradients example_digit_dataset example_digit
      = Inr m"
    using r ps
    by (simp add: digit_epoch_def example_digit_dataset_def digit_batch_def digit_get_loss_def
        example_loss_def example_gradients_def)
  then obtain m where "digit_epoch example_loss example_gradients example_digit_dataset
      example_digit = Inr m"
    by blast
  then show ?thesis
    by (subst digit_train.simps) (simp add: example_digit_dataset_def)
qed

lemma example_language_train:
  "\<exists>m. language_train example_loss example_gradients example_language_dataset example_language
          = Some (Inr m)"
proof -
  obtain out where r: "language_run example_language example_word
      = Inr (example_language\<lparr>lang_batch_size := 2\<rparr>, out)"
    using example_language_run by blast
  obtain ps where ps: "update_all
     [lang_w_1 example_language, lang_w_2 example_language, lang_w_3 example_language]
     [lang_w_1 example_language, lang_w_2 example_language, lang_w_3 example_language]
     (lang_alpha example_language) = Inr ps"
    using example_update_all3 by blast
  have "\<exists>m. language_epoch example_loss example_gradients example_language_dataset
      example_language = Inr m"
    using r ps
    by (simp add: language_epoch_def example_language_dataset_def language_batch_def
        language_get_loss_def example_loss_def example_gradients_def)
  then obtain m where "language_epoch example_loss example_gradients example_language_dataset
      example_language = Inr m"
    by blast
  then show ?thesis
    by (subst language_train.simps) (simp add: example_language_dataset_def)
qed

lemma regression_batch_loss:
  assumes "regression_batch L G (acc, self) b = Inr (l1, s1)"
  shows "\<exists>r v. regression_get_loss L self (fst b) (snd b) = Inr r \<and> as_scalar (snd r) = Inr v
     \<and> l1 = acc + v \<and> regression_batch L G (0, self) b = Inr (v, s1)"
  using assms
  by (auto simp: regression_batch_def and_then_eq_Inr Let_def split: prod.splits)

lemma regression_pass_losses:
  assumes "for_each (regression_batch L G) bs (acc, self) = Inr (losses, self')"
  shows "\<exists>vs. pass_losses L G self bs = Inr vs \<and> losses = acc + sum_list vs"
  using assms
proof (induction bs arbitrary: acc self)
  case Nil
  then show ?case by simp
next
  case (Cons b bs)
  from Cons.prems obtain l1 s1 where st: "regression_batch L G (acc, self) b = Inr (l1, s1)"
    "for_each (regression_batch L G) bs (l1, s1) = Inr (losses, self')"
    by (auto simp: and_then_eq_Inr)
  from regression_batch_loss [OF st(1)] obtain r v
    where r: "regression_get_loss L self (fst b) (snd b) = Inr r" "as_scalar (snd r) = Inr v"
      "l1 = acc + v" "regression_batch L G (0, self) b = Inr (v, s1)"
    by blast
  from Cons.IH [OF st(2)] obtain vs where vs: "pass_losses L G s1 bs = Inr vs"
    "losses = l1 + sum_list vs"
    by blast
  have "pass_losses L G self (b # bs) = Inr (v # vs)"
    using r vs(1) by simp
  moreover have "losses = acc + sum_list (v # vs)"
    using r(3) vs(2) by simp
  ultimately show ?case by blast
qed

lemma regression_epoch_pass_losses:
  assumes "regression_epoch L G ds self = Inr (losses, self')"
  shows "\<exists>vs. pass_losses L G self (iterate_once ds (reg_batch_size self)) = Inr vs
     \<and> losses = sum_list vs"
  using regression_pass_losses [of L G _ 0 self losses self'] assms
  by (simp add: regression_epoch_def)

lemma quarter_run:
  "regression_run quarter_model quarter_inputs = Inr (quarter_model, NDArray 4 1 (\<lambda>i j. 0))"
  by (simp add: regression_run_def quarter_model_def quarter_inputs_def example_regression_def
      regression_init_def nn_defs Let_def zeros_def)

lemma quarter_errors:
  "square_errors (NDArray 4 1 (\<lambda>i j. 0)) quarter_targets = [1 / 16, 1 / 16, 1 / 16, 1 / 16]"
  by (simp add: square_errors_def quarter_targets_def quarters_def eval_nat_numeral
      power2_eq_square)

lemma quarter_loss:
  "regression_get_loss batch_mean_loss quarter_model quarter_inputs quarter_targets
     = Inr (quarter_model, NDArray 1 1 (\<lambda>i j. 1 / 16))"
proof -
  have "shape (NDArray 4 1 (\<lambda>i j. 0)) = shape quarter_targets"
    by (simp add: quarter_targets_def shape_def)
  then have "batch_mean_loss (NDArray 4 1 (\<lambda>i j. 0)) quarter_targets
      = Inr (NDArray 1 1 (\<lambda>i j. 1 / 16))"
    unfolding batch_mean_loss_def quarter_errors by simp
  then show ?thesis
    by (simp add: regression_get_loss_def quarter_run)
qed

lemma quarter_epoch:
  "\<exists>m. regression_epoch batch_mean_loss example_gradients quarter_points quarter_model
          = Inr (1 / 16, m) \<and> reg_batch_size m = 4"
proof -
  have bs: "reg_batch_size quarter_model = 4" by (simp add: quarter_model_def)
  obtain ps where ps: "update_all
     [reg_w_1 quarter_model, reg_b_1 quarter_model, reg_w_2 quarter_model, reg_b_2 quarter_model]
     [reg_w_1 quarter_model, reg_b_1 quarter_model, reg_w_2 quarter_model, reg_b_2 quarter_model]
     (reg_alpha quarter_model) = Inr ps"
    using example_update_all by blast
  show ?thesis
    using ps
    by (simp add: regression_epoch_def bs quarter_points_def regression_batch_def
        quarter_loss example_gradients_def as_scalar_def)
qed




section \<open>The recurrent network\<close>

lemma language_step_in_bounds:
  "i < length xs \<Longrightarrow> language_step self xs f i \<noteq> Inl IndexError"
  by (auto simp: language_step_def and_then_eq_Inl)

lemma language_loop_in_bounds:
  "for_each (language_step self xs) [0..<length xs] f \<noteq> Inl IndexError"
  by (rule for_each_no_error) (simp add: language_step_in_bounds)

lemma language_run_Nil: "language_run self [] = Inl IndexError"
  by (simp add: language_run_def)

lemma language_run_in_bounds: "xs \<noteq> [] \<Longrightarrow> language_run self xs \<noteq> Inl IndexError"
  by (auto simp: language_run_def and_then_eq_Inl language_loop_in_bounds)

lemma language_loop_hidden:
  "k < length xs \<Longrightarrow>
   and_then (spec_hidden self xs 0) (for_each (language_step self xs) [0..<Suc k])
     = spec_hidden self xs k"
proof (induction k)
  case 0
  then show ?case
    by (cases "spec_hidden self xs 0") (simp_all add: language_step_def)
next
  case (Suc k)
  then have IH:
    "and_then (spec_hidden self xs 0) (for_each (language_step self xs) [0..<Suc k])
       = spec_hidden self xs k"
    by simp
  have "and_then (spec_hidden self xs 0) (for_each (language_step self xs) [0..<Suc (Suc k)])
      = and_then
          (and_then (spec_hidden self xs 0) (for_each (language_step self xs) [0..<Suc k]))
          (\<lambda>f. language_step self xs f (Suc k))"
    by (cases "spec_hidden self xs 0")
      (simp_all add: for_each_append and_then_def split: sum.splits)
  also have "\<dots> = and_then (spec_hidden self xs k) (\<lambda>f. language_step self xs f (Suc k))"
    by (simp only: IH)
  also have "\<dots> = spec_hidden self xs (Suc k)"
    using Suc.prems by (cases "spec_hidden self xs k") (simp_all add: language_step_def)
  finally show ?case .
qed

lemma spec_hidden_batch_size [simp]:
  "spec_hidden (self\<lparr>lang_batch_size := b\<rparr>) xs k = spec_hidden self xs k"
  by (induction k) simp_all

text \<open>
  C8. For a non-empty sequence \<open>xs\<close> of length \<open>L\<close>, \<^verbatim>\<open>LanguageIDModel.run\<close> computes the
  hidden states of the recurrence and returns \<open>Linear (h\<^sub>L\<^sub>-\<^sub>1, w_3)\<close>: it raises what the
  recurrence raises, and otherwise returns that node (and leaves the model as it was, up
  to the batch size recorded on a first call).
\<close>

theorem language_run_recurrence:
  "xs \<noteq> [] \<longrightarrow>
   language_run self xs =
     and_then (spec_hidden self xs (length xs - 1)) (\<lambda>h.
     and_then (Linear h (lang_w_3 self)) (\<lambda>out.
     Inr (if lang_batch_size self = 0 then self\<lparr>lang_batch_size := nrows (xs ! 0)\<rparr> else self,
          out)))"
proof
  assume ne: "xs \<noteq> []"
  then have k: "length xs - 1 < length xs" and l: "0 < length xs"
    by simp_all
  have S: "Suc (length xs - 1) = length xs"
    using ne by simp
  define self1 where
    "self1 = (if lang_batch_size self = 0 then self\<lparr>lang_batch_size := nrows (xs ! 0)\<rparr> else self)"
  have h: "spec_hidden self1 xs = spec_hidden self xs"
    and w: "lang_w_1 self1 = lang_w_1 self" "lang_w_3 self1 = lang_w_3 self"
    by (auto simp: self1_def fun_eq_iff)
  have st: "language_step self1 xs = language_step self xs"
    by (auto simp: self1_def fun_eq_iff language_step_def)
  have "language_run self xs =
      and_then
        (and_then (spec_hidden self1 xs 0)
           (for_each (language_step self1 xs) [0..<Suc (length xs - 1)]))
        (\<lambda>f. and_then (Linear f (lang_w_3 self1)) (\<lambda>out. Inr (self1, out)))"
    using l unfolding S
    by (simp add: language_run_def self1_def and_then_assoc)
  then have "language_run self xs =
      and_then (spec_hidden self xs (length xs - 1))
        (\<lambda>f. and_then (Linear f (lang_w_3 self)) (\<lambda>out. Inr (self1, out)))"
    by (simp only: st language_loop_hidden [OF k] h w)
  then show "language_run self xs =
     and_then (spec_hidden self xs (length xs - 1)) (\<lambda>h.
     and_then (Linear h (lang_w_3 self)) (\<lambda>out.
     Inr (if lang_batch_size self = 0 then self\<lparr>lang_batch_size := nrows (xs ! 0)\<rparr> else self,
          out)))"
    by (simp only: self1_def)
qed

theorem language_run_recurrence_witness:
  "example_word \<noteq> [] \<and>
   language_run example_language example_word =
     and_then (spec_hidden example_language example_word (length example_word - 1)) (\<lambda>h.
     and_then (Linear h (lang_w_3 example_language)) (\<lambda>out.
     Inr (if lang_batch_size example_language = 0
          then example_language\<lparr>lang_batch_size := nrows (example_word ! 0)\<rparr>
          else example_language,
          out)))"
  using language_run_recurrence [of example_word example_language]
  by (simp add: example_word_def)

text \<open>
  C10. On the empty list, \<^verbatim>\<open>LanguageIDModel.run\<close> and \<^verbatim>\<open>get_loss\<close> raise the
  \<^verbatim>\<open>IndexError\<close> of \<^verbatim>\<open>xs[0]\<close>. On a non-empty list every index below \<open>len(xs)\<close> is in
  bounds, so \<^verbatim>\<open>run\<close> raises no \<^verbatim>\<open>IndexError\<close>, and neither does \<^verbatim>\<open>get_loss\<close> unless
  the loss operation itself raises one.
\<close>

theorem language_run_index_bounds:
  "language_run self [] = Inl IndexError
   \<and> language_get_loss SoftmaxLoss self [] y = Inl IndexError
   \<and> (xs \<noteq> [] \<longrightarrow>
        (\<forall>i < length xs. getitem xs i = Inr (xs ! i))
        \<and> language_run self xs \<noteq> Inl IndexError
        \<and> ((\<forall>out. SoftmaxLoss out y \<noteq> Inl IndexError)
            \<longrightarrow> language_get_loss SoftmaxLoss self xs y \<noteq> Inl IndexError))"
  by (auto simp: language_run_Nil language_get_loss_def language_run_in_bounds and_then_eq_Inl)

theorem language_run_index_bounds_witness:
  "example_word \<noteq> []
   \<and> (\<forall>out. example_loss out example_labels \<noteq> Inl IndexError)
   \<and> getitem example_word 2 = Inr (example_word ! 2)
   \<and> language_run example_language example_word \<noteq> Inl IndexError
   \<and> language_get_loss example_loss example_language example_word example_labels
         \<noteq> Inl IndexError"
  using language_run_index_bounds
    [of example_language example_loss example_labels example_word]
  by (simp add: example_word_def example_loss_def)

section \<open>The training of the perceptron\<close>

lemma dot_commute: "dot d u v = dot d v u"
  by (simp add: dot_def mult.commute)

lemma dot_add_right: "dot d u (\<lambda>j. v j + c * x j) = dot d u v + c * dot d u x"
  by (simp add: dot_def distrib_left sum.distrib sum_distrib_left mult.assoc mult.left_commute)

lemma dot_self_nonneg: "0 \<le> dot d u u"
  by (simp add: dot_def sum_nonneg)

lemma dot_self_add:
  "dot d (\<lambda>j. v j + c * x j) (\<lambda>j. v j + c * x j)
     = dot d v v + 2 * c * dot d v x + c\<^sup>2 * dot d x x"
proof -
  have "(v j + c * x j) * (v j + c * x j)
      = v j * v j + 2 * c * (v j * x j) + c\<^sup>2 * (x j * x j)" for j
    by (simp add: algebra_simps power2_eq_square)
  then have "dot d (\<lambda>j. v j + c * x j) (\<lambda>j. v j + c * x j)
      = (\<Sum>j<d. v j * v j + 2 * c * (v j * x j) + c\<^sup>2 * (x j * x j))"
    by (simp only: dot_def)
  also have "\<dots> = dot d v v + 2 * c * dot d v x + c\<^sup>2 * dot d x x"
    by (simp only: dot_def sum.distrib sum_distrib_left)
  finally show ?thesis .
qed

lemma dot_self_zero: "dot d u u = 0 \<Longrightarrow> dot d u v = 0"
proof -
  assume "dot d u u = 0"
  then have "\<forall>j \<in> {..<d}. u j * u j = 0"
    unfolding dot_def by (subst (asm) sum_nonneg_eq_0_iff) simp_all
  then show ?thesis by (simp add: dot_def)
qed

lemma Cauchy_Schwarz_dot: "(dot d u v)\<^sup>2 \<le> dot d u u * dot d v v"
proof (cases "dot d u u = 0")
  case True
  then show ?thesis by (simp add: dot_self_zero)
next
  case False
  define U where "U = dot d u u"
  define V where "V = dot d v v"
  define C where "C = dot d u v"
  have U: "0 < U" using False dot_self_nonneg [of d u] by (simp add: U_def)
  have "0 \<le> dot d (\<lambda>j. v j + (- C / U) * u j) (\<lambda>j. v j + (- C / U) * u j)"
    by (rule dot_self_nonneg)
  also have "\<dots> = V + 2 * (- C / U) * C + (- C / U)\<^sup>2 * U"
    by (simp only: dot_self_add) (simp add: U_def V_def C_def dot_commute)
  also have "\<dots> = V - C\<^sup>2 / U"
    using U by (simp add: power2_eq_square field_simps)
  finally have "C\<^sup>2 / U \<le> V" by simp
  then have "C\<^sup>2 \<le> V * U" using U by (simp add: pos_divide_le_eq)
  then show ?thesis by (simp add: U_def V_def C_def mult.commute)
qed

lemma updates_bounded:
  fixes a0 g n0 R U A N :: real
  assumes g: "0 < g" and A: "a0 + real k * g \<le> A" and N: "N \<le> n0 + real k * R"
    and CS: "A\<^sup>2 \<le> U * N" and U: "0 \<le> U" and n0: "0 \<le> n0" and R: "0 \<le> R"
  shows "real k \<le> \<bar>a0\<bar> / g + (U * n0 + U * R + 2 * \<bar>a0\<bar> * g) / g\<^sup>2"
proof (cases "k = 0")
  case True
  then show ?thesis using g U n0 R by simp
next
  case False
  define c where "c = real k"
  have c: "1 \<le> c" using False by (simp add: c_def)
  define T where "T = U * n0 + U * R + 2 * \<bar>a0\<bar> * g"
  have T: "0 \<le> T" using U n0 R g by (simp add: T_def)
  have pos: "0 \<le> \<bar>a0\<bar> / g" "0 \<le> T / g\<^sup>2" using g T by simp_all
  show ?thesis
  proof (cases "a0 + c * g \<le> 0")
    case True
    then have "c * g \<le> \<bar>a0\<bar>" by linarith
    then have "c \<le> \<bar>a0\<bar> / g" using g by (simp add: pos_le_divide_eq)
    then show ?thesis using pos unfolding c_def T_def by linarith
  next
    case False
    then have "0 \<le> a0 + c * g" by simp
    with A have "(a0 + c * g)\<^sup>2 \<le> A\<^sup>2"
      unfolding c_def by (intro power_mono) simp_all
    also have "\<dots> \<le> U * N" by (rule CS)
    also have "\<dots> \<le> U * (n0 + c * R)"
      using N U unfolding c_def by (intro mult_left_mono) simp_all
    finally have 1: "(a0 + c * g)\<^sup>2 \<le> U * n0 + c * (U * R)"
      by (simp add: algebra_simps)
    define p where "p = c * g"
    have p: "0 \<le> p" using c g by (simp add: p_def)
    have "- \<bar>a0\<bar> \<le> a0" by simp
    then have "- \<bar>a0\<bar> * p \<le> a0 * p"
      using p by (rule mult_right_mono)
    then have ap: "- (\<bar>a0\<bar> * p) \<le> a0 * p" by simp
    have "(a0 + p)\<^sup>2 = a0\<^sup>2 + 2 * (a0 * p) + p\<^sup>2"
      by (simp add: power2_sum)
    with ap zero_le_power2 [of a0] have "p\<^sup>2 - 2 * (\<bar>a0\<bar> * p) \<le> (a0 + p)\<^sup>2"
      by linarith
    with 1 have "p\<^sup>2 - 2 * (\<bar>a0\<bar> * p) \<le> U * n0 + c * (U * R)"
      unfolding p_def by linarith
    then have "(c * g)\<^sup>2 \<le> U * n0 + c * (U * R) + c * (2 * \<bar>a0\<bar> * g)"
      unfolding p_def by (simp add: algebra_simps)
    moreover have "U * n0 \<le> c * (U * n0)"
    proof -
      have "0 \<le> U * n0" using U n0 by simp
      then have "1 * (U * n0) \<le> c * (U * n0)"
        using c by (intro mult_right_mono) simp_all
      then show ?thesis by simp
    qed
    ultimately have "(c * g)\<^sup>2 \<le> c * (U * n0) + c * (U * R) + c * (2 * \<bar>a0\<bar> * g)"
      by linarith
    then have "c * (c * g\<^sup>2) \<le> c * T"
      by (simp add: T_def algebra_simps power2_eq_square)
    then have "c * g\<^sup>2 \<le> T" using c by simp
    then have "c \<le> T / g\<^sup>2" using g by (simp add: pos_le_divide_eq)
    then show ?thesis using pos unfolding c_def T_def by linarith
  qed
qed

lemma get_prediction_dot:
  assumes "shape x = (1, d)" and "shape (perc_w self) = (1, d)"
  shows "get_prediction self x
     = Inr (if 0 \<le> dot d (cells x 0) (cells (perc_w self) 0) then 1 else - 1)"
  using assms by (simp add: get_prediction_def perceptron_run_def nn_defs dot_def)

lemma train_batch_example:
  assumes "shape x = (1, d)" and "shape (perc_w self) = (1, d)"
    and "as_scalar y = Inr l" and "l = 1 \<or> l = - 1"
  shows "train_batch (c, self) (x, y) =
     (if (l = 1 \<and> dot d (cells x 0) (cells (perc_w self) 0) < 0)
         \<or> (l = - 1 \<and> 0 \<le> dot d (cells x 0) (cells (perc_w self) 0))
      then Inr (c + 1, self\<lparr>perc_w :=
             NDArray 1 d (\<lambda>i j. cells (perc_w self) i j + l * cells x i j)\<rparr>)
      else Inr (c, self))"
  using assms(3,4) assms(1,2) [unfolded shape_def]
  by (auto simp: train_batch_def get_prediction_dot [OF assms(1,2)] label_is_def
      update_def shape_def)

lemma separates_good:
  "separates u 0 d es \<Longrightarrow> \<exists>g R. 0 < g \<and> 0 \<le> R \<and> (\<forall>e \<in> set es. good u d g R e)"
proof (induction es)
  case Nil
  show ?case by (rule exI [of _ 1], rule exI [of _ 0]) simp
next
  case (Cons e es)
  then obtain g R where gR: "0 < g" "0 \<le> R" "\<forall>e \<in> set es. good u d g R e"
    by (auto simp: separates_def)
  obtain x y where e: "e = (x, y)" by (cases e)
  from Cons.prems e obtain l where l: "shape x = (1, d)" "as_scalar y = Inr l"
    "l = 1 \<or> l = - 1" "0 < l * dot d u (cells x 0)"
    by (auto simp: separates_def)
  define g' where "g' = min g (l * dot d u (cells x 0))"
  define R' where "R' = max R (dot d (cells x 0) (cells x 0))"
  have "0 < g'" "0 \<le> R'" using gR l(4) by (simp_all add: g'_def R'_def)
  moreover have "good u d g' R' e"
    using l by (auto simp: good_def e g'_def R'_def)
  moreover have "good u d g' R' e'" if "e' \<in> set es" for e'
  proof -
    from gR(3) that have "good u d g R e'" by simp
    then show ?thesis
      unfolding good_def g'_def R'_def
      by (auto intro: min.coboundedI1 max.coboundedI1 split: sum.splits)
  qed
  ultimately have "0 < g' \<and> 0 \<le> R' \<and> (\<forall>e' \<in> set (e # es). good u d g' R' e')"
    by simp
  then show ?case by blast
qed

lemma train_batch_potential:
  assumes e: "good u d g R (x, y)" and pot: "potential u d a0 n0 g R k self"
  shows "(train_batch (c, self) (x, y) = Inr (c, self) \<and> classifies self [(x, y)])
     \<or> (\<exists>self'. train_batch (c, self) (x, y) = Inr (c + 1, self')
           \<and> potential u d a0 n0 g R (k + 1) self')"
proof -
  from e obtain l where x: "shape x = (1, d)" and y: "as_scalar y = Inr l"
    and l: "l = 1 \<or> l = - 1" and m: "g \<le> l * dot d u (cells x 0)"
    and r: "dot d (cells x 0) (cells x 0) \<le> R"
    by (auto simp: good_def split: sum.splits)
  from pot have w: "shape (perc_w self) = (1, d)"
    and a: "a0 + real k * g \<le> dot d u (cells (perc_w self) 0)"
    and n: "dot d (cells (perc_w self) 0) (cells (perc_w self) 0) \<le> n0 + real k * R"
    by (simp_all add: potential_def)
  define s where "s = dot d (cells x 0) (cells (perc_w self) 0)"
  note step = train_batch_example [OF x w y l, of c, folded s_def]
  show ?thesis
  proof (cases "(l = 1 \<and> s < 0) \<or> (l = - 1 \<and> 0 \<le> s)")
    case False
    with step have "train_batch (c, self) (x, y) = Inr (c, self)" by simp
    moreover have "classifies self [(x, y)]"
      using False l y by (auto simp: classifies_def get_prediction_dot [OF x w, folded s_def])
    ultimately show ?thesis by simp
  next
    case True
    define self' where
      "self' = self\<lparr>perc_w := NDArray 1 d (\<lambda>i j. cells (perc_w self) i j + l * cells x i j)\<rparr>"
    from True step have t: "train_batch (c, self) (x, y) = Inr (c + 1, self')"
      by (simp add: self'_def)
    have ls: "l * s \<le> 0" using True by auto
    have l2: "l\<^sup>2 = 1" using l by auto
    have c': "cells (perc_w self') 0 = (\<lambda>j. cells (perc_w self) 0 j + l * cells x 0 j)"
      by (simp add: self'_def)
    have "dot d u (cells (perc_w self') 0)
        = dot d u (cells (perc_w self) 0) + l * dot d u (cells x 0)"
      by (simp only: c' dot_add_right)
    moreover have kg: "real (k + 1) * t = real k * t + t" for t :: real
      by (simp add: distrib_right)
    ultimately have a': "a0 + real (k + 1) * g \<le> dot d u (cells (perc_w self') 0)"
      using a m kg [of g] by linarith
    have "dot d (cells (perc_w self') 0) (cells (perc_w self') 0)
        = dot d (cells (perc_w self) 0) (cells (perc_w self) 0)
          + 2 * l * dot d (cells (perc_w self) 0) (cells x 0)
          + l\<^sup>2 * dot d (cells x 0) (cells x 0)"
      by (simp only: c' dot_self_add)
    also have "\<dots> = dot d (cells (perc_w self) 0) (cells (perc_w self) 0)
          + 2 * (l * s) + dot d (cells x 0) (cells x 0)"
      by (simp add: l2 s_def dot_commute [of d "cells (perc_w self) 0" "cells x 0"])
    also have "\<dots> \<le> n0 + real k * R + R"
      using n ls r by linarith
    finally have n': "dot d (cells (perc_w self') 0) (cells (perc_w self') 0)
        \<le> n0 + real (k + 1) * R"
      using kg [of R] by linarith
    have "potential u d a0 n0 g R (k + 1) self'"
      using a' n' by (simp add: potential_def) (simp add: self'_def shape_def)
    with t show ?thesis by blast
  qed
qed

lemma train_pass_potential:
  assumes "\<forall>e \<in> set es. good u d g R e" and "potential u d a0 n0 g R k self"
  shows "\<exists>c' self'. for_each train_batch es (c, self) = Inr (c', self') \<and> c \<le> c'
     \<and> potential u d a0 n0 g R (k + (c' - c)) self'
     \<and> (c' = c \<longrightarrow> self' = self \<and> classifies self es)"
  using assms
proof (induction es arbitrary: c k self)
  case Nil
  then show ?case by (simp add: classifies_def)
next
  case (Cons e es)
  obtain x y where e: "e = (x, y)" by (cases e)
  from Cons.prems have ge: "good u d g R (x, y)" and ges: "\<forall>e \<in> set es. good u d g R e"
    by (simp_all add: e)
  from train_batch_potential [OF ge Cons.prems(2), of c]
  show ?case
  proof
    assume same: "train_batch (c, self) (x, y) = Inr (c, self) \<and> classifies self [(x, y)]"
    from Cons.IH [OF ges Cons.prems(2), of c]
    obtain c' self' where r: "for_each train_batch es (c, self) = Inr (c', self')" "c \<le> c'"
      "potential u d a0 n0 g R (k + (c' - c)) self'"
      "c' = c \<longrightarrow> self' = self \<and> classifies self es"
      by blast
    have "for_each train_batch (e # es) (c, self) = Inr (c', self')"
      using same r(1) by (simp add: e)
    moreover have "c' = c \<longrightarrow> self' = self \<and> classifies self (e # es)"
      using same r(4) by (simp add: e classifies_def)
    ultimately show ?thesis using r(2,3) by blast
  next
    assume "\<exists>self1. train_batch (c, self) (x, y) = Inr (c + 1, self1)
        \<and> potential u d a0 n0 g R (k + 1) self1"
    then obtain self1 where s1: "train_batch (c, self) (x, y) = Inr (c + 1, self1)"
      "potential u d a0 n0 g R (k + 1) self1"
      by blast
    from Cons.IH [OF ges s1(2), of "c + 1"]
    obtain c' self' where r: "for_each train_batch es (c + 1, self1) = Inr (c', self')"
      "c + 1 \<le> c'" "potential u d a0 n0 g R (k + 1 + (c' - (c + 1))) self'"
      by blast
    have "for_each train_batch (e # es) (c, self) = Inr (c', self')"
      using s1(1) r(1) by (simp add: e)
    moreover have "k + 1 + (c' - (c + 1)) = k + (c' - c)" using r(2) by simp
    ultimately show ?thesis using r(2,3) by auto
  qed
qed

lemma potential_bounded:
  assumes "potential u d a0 n0 g R k self" and "0 < g" and "0 \<le> R" and "0 \<le> n0"
  shows "real k \<le> \<bar>a0\<bar> / g + (dot d u u * n0 + dot d u u * R + 2 * \<bar>a0\<bar> * g) / g\<^sup>2"
proof -
  define v where "v = cells (perc_w self) 0"
  from assms(1) have a: "a0 + real k * g \<le> dot d u v" and n: "dot d v v \<le> n0 + real k * R"
    by (simp_all add: potential_def v_def)
  have cs: "(dot d u v)\<^sup>2 \<le> dot d u u * dot d v v"
    by (rule Cauchy_Schwarz_dot)
  show ?thesis
    by (rule updates_bounded [OF assms(2) a n cs dot_self_nonneg assms(4) assms(3)])
qed

lemma perceptron_train_terminates:
  assumes es: "\<forall>e \<in> set (iterate_once ds 1). good u d g R e"
    and g: "0 < g" and R: "0 \<le> R" and n0: "0 \<le> n0"
    and pot: "potential u d a0 n0 g R k self"
  shows "\<exists>self'. perceptron_train ds self = Some (Inr self')
     \<and> classifies self' (iterate_once ds 1)"
proof -
  define B where
    "B = \<bar>a0\<bar> / g + (dot d u u * n0 + dot d u u * R + 2 * \<bar>a0\<bar> * g) / g\<^sup>2"
  have bound: "k \<le> nat \<lfloor>B\<rfloor>" if "potential u d a0 n0 g R k self" for k self
  proof -
    from potential_bounded [OF that g R n0] have "real k \<le> B" by (simp add: B_def)
    then show ?thesis by (simp add: le_nat_floor)
  qed
  from pot show ?thesis
  proof (induction "nat \<lfloor>B\<rfloor> - k" arbitrary: k self rule: less_induct)
    case less
    from train_pass_potential [OF es less.prems, of 0]
    obtain c self1 where p: "train_pass ds self = Inr (c, self1)"
      and pot1: "potential u d a0 n0 g R (k + c) self1"
      and zero: "c = 0 \<longrightarrow> self1 = self \<and> classifies self (iterate_once ds 1)"
      by (auto simp: train_pass_def)
    show ?case
    proof (cases "c = 0")
      case True
      with p zero show ?thesis
        by (subst perceptron_train.simps) simp
    next
      case False
      from bound [OF pot1] False have "nat \<lfloor>B\<rfloor> - (k + c) < nat \<lfloor>B\<rfloor> - k" by simp
      from less.hyps [OF this pot1]
      obtain self' where "perceptron_train ds self1 = Some (Inr self')"
        "classifies self' (iterate_once ds 1)"
        by blast
      with p False show ?thesis
        by (subst perceptron_train.simps) simp
    qed
  qed
qed

lemma perceptron_train_separable:
  assumes "separates u 0 d (iterate_once ds 1)" and "shape (perc_w self) = (1, d)"
  shows "\<exists>self'. perceptron_train ds self = Some (Inr self')
     \<and> classifies self' (iterate_once ds 1)"
proof -
  from separates_good [OF assms(1)]
  obtain g R where gR: "0 < g" "0 \<le> R" "\<forall>e \<in> set (iterate_once ds 1). good u d g R e"
    by blast
  have "potential u d (dot d u (cells (perc_w self) 0))
      (dot d (cells (perc_w self) 0) (cells (perc_w self) 0)) g R 0 self"
    using assms(2) by (simp add: potential_def)
  from perceptron_train_terminates [OF gR(3) gR(1) gR(2) dot_self_nonneg this]
  show ?thesis .
qed

lemma train_batch_rule:
  assumes "get_prediction self x = Inr p" and "as_scalar y = Inr l"
  shows "train_batch (count, self) (x, y) = Inr
     (if real_of_int p \<noteq> l \<and> l = 1
      then (count + 1, self\<lparr>perc_w :=
              NDArray 1 (ncols x) (\<lambda>i j. cells (perc_w self) i j + cells x i j)\<rparr>)
      else if real_of_int p \<noteq> l \<and> l = - 1
      then (count + 1, self\<lparr>perc_w :=
              NDArray 1 (ncols x) (\<lambda>i j. cells (perc_w self) i j - cells x i j)\<rparr>)
      else (count, self))"
proof -
  from assms(1) have sh: "nrows (perc_w self) = 1" "ncols x = ncols (perc_w self)" "nrows x = 1"
    and p: "p = 1 \<or> p = - 1"
    by (auto simp: get_prediction_def perceptron_run_def DotProduct_def as_scalar_def
        and_then_eq_Inr split: if_splits)
  from p show ?thesis
    using assms sh by (auto simp: train_batch_def label_is_def update_def shape_def)
qed

lemma perceptron_train_first_zero:
  fixes ds :: "(ndarray, 'm) dataset"
  assumes "nth_pass ds n self = Inr (0, self')"
    and "\<forall>k<n. \<exists>c m. nth_pass ds k self = Inr (c, m) \<and> c \<noteq> 0"
  shows "perceptron_train ds self = Some (Inr self')"
  using assms
proof (induction n arbitrary: self)
  case 0
  then show ?case by (subst perceptron_train.simps) simp
next
  case (Suc n)
  from Suc.prems(2) obtain c m where p: "train_pass ds self = Inr (c, m)" "c \<noteq> 0"
    by fastforce
  have "nth_pass ds n m = Inr (0, self')" using Suc.prems(1) p by simp
  moreover have "\<forall>k<n. \<exists>c m'. nth_pass ds k m = Inr (c, m') \<and> c \<noteq> 0"
  proof (intro allI impI)
    fix k assume "k < n"
    then have "Suc k < Suc n" by simp
    with Suc.prems(2) obtain c' m' where "nth_pass ds (Suc k) self = Inr (c', m')" "c' \<noteq> 0"
      by blast
    then show "\<exists>c m'. nth_pass ds k m = Inr (c, m') \<and> c \<noteq> 0" using p by simp
  qed
  ultimately have "perceptron_train ds m = Some (Inr self')" by (rule Suc.IH)
  with p show ?case by (subst perceptron_train.simps) simp
qed

lemma perceptron_train_returns:
  fixes ds :: "(ndarray, 'm) dataset"
  assumes "perceptron_train ds self = Some res"
  shows "\<forall>self'. res = Inr self' \<longrightarrow>
     (\<exists>n. nth_pass ds n self = Inr (0, self')
        \<and> (\<forall>k<n. \<exists>c m. nth_pass ds k self = Inr (c, m) \<and> c \<noteq> 0))"
proof (rule perceptron_train.raw_induct
    [where P = "\<lambda>(ds :: (ndarray, 'm) dataset) self res. \<forall>self'. res = Inr self' \<longrightarrow>
       (\<exists>n. nth_pass ds n self = Inr (0, self')
          \<and> (\<forall>k<n. \<exists>c m. nth_pass ds k self = Inr (c, m) \<and> c \<noteq> 0))", OF _ assms])
  fix train and ds :: "(ndarray, 'm) dataset" and self res
  assume IH: "\<And>(ds :: (ndarray, 'm) dataset) self res. train ds self = Some res \<Longrightarrow>
       \<forall>self'. res = Inr self' \<longrightarrow>
       (\<exists>n. nth_pass ds n self = Inr (0, self')
          \<and> (\<forall>k<n. \<exists>c m. nth_pass ds k self = Inr (c, m) \<and> c \<noteq> 0))"
    and eq: "(case train_pass ds self of
        Inl e \<Rightarrow> Some (Inl e)
      | Inr (count, self') \<Rightarrow>
          if count \<noteq> 0 then train ds self' else Some (Inr self')) = Some res"
  show "\<forall>self'. res = Inr self' \<longrightarrow>
       (\<exists>n. nth_pass ds n self = Inr (0, self')
          \<and> (\<forall>k<n. \<exists>c m. nth_pass ds k self = Inr (c, m) \<and> c \<noteq> 0))"
  proof (intro allI impI)
    fix self' assume res: "res = Inr self'"
    show "\<exists>n. nth_pass ds n self = Inr (0, self')
          \<and> (\<forall>k<n. \<exists>c m. nth_pass ds k self = Inr (c, m) \<and> c \<noteq> 0)"
    proof (cases "train_pass ds self")
      case (Inl e)
      with eq res show ?thesis by simp
    next
      case (Inr r)
      obtain c m where r: "r = (c, m)" by (cases r)
      show ?thesis
      proof (cases "c = 0")
        case True
        with eq Inr r res have "nth_pass ds 0 self = Inr (0, self')" by simp
        then show ?thesis by (intro exI [of _ 0]) simp
      next
        case False
        with eq Inr r have "train ds m = Some res" by simp
        from IH [OF this] res obtain n where n: "nth_pass ds n m = Inr (0, self')"
          "\<forall>k<n. \<exists>c m'. nth_pass ds k m = Inr (c, m') \<and> c \<noteq> 0"
          by blast
        have "nth_pass ds (Suc n) self = Inr (0, self')" using Inr r n(1) by simp
        moreover have "\<exists>c' m'. nth_pass ds k self = Inr (c', m') \<and> c' \<noteq> 0" if "k < Suc n" for k
        proof (cases k)
          case 0
          with Inr r False show ?thesis by simp
        next
          case (Suc j)
          with that n(2) Inr r show ?thesis by simp
        qed
        ultimately show ?thesis by blast
      qed
    qed
  qed
qed

text \<open>
  C1. Each pass of \<^verbatim>\<open>train\<close> runs over \<^verbatim>\<open>dataset.iterate_once(1)\<close>. On an example with
  prediction \<open>p\<close> and label \<open>l\<close>, the pass adds the input to the weights and counts a
  correction when \<open>p \<noteq> l\<close> and \<open>l = 1\<close>, subtracts it and counts a correction when
  \<open>p \<noteq> l\<close> and \<open>l = -1\<close>, and changes nothing otherwise. \<^verbatim>\<open>train\<close> returns a model exactly
  when that model is left by the first pass that counts no correction.
\<close>

theorem perceptron_train_rule:
  fixes ds :: "(ndarray, 'm) dataset"
  shows
  "train_pass ds self = for_each train_batch (iterate_once ds 1) (0, self)
   \<and> (get_prediction self x = Inr p \<and> as_scalar y = Inr l \<longrightarrow>
        train_batch (count, self) (x, y) = Inr
          (if real_of_int p \<noteq> l \<and> l = 1
           then (count + 1, self\<lparr>perc_w :=
                   NDArray 1 (ncols x) (\<lambda>i j. cells (perc_w self) i j + cells x i j)\<rparr>)
           else if real_of_int p \<noteq> l \<and> l = - 1
           then (count + 1, self\<lparr>perc_w :=
                   NDArray 1 (ncols x) (\<lambda>i j. cells (perc_w self) i j - cells x i j)\<rparr>)
           else (count, self)))
   \<and> (perceptron_train ds self = Some (Inr self') \<longleftrightarrow>
        (\<exists>n. nth_pass ds n self = Inr (0, self')
           \<and> (\<forall>k<n. \<exists>c m. nth_pass ds k self = Inr (c, m) \<and> c \<noteq> 0)))"
  using train_batch_rule [of self x p y l count]
    perceptron_train_first_zero [of ds _ self self']
    perceptron_train_returns [of ds self "Inr self'"]
  by (auto simp: train_pass_def)

lemmas perceptron_defs = train_pass_def train_batch_def get_prediction_def perceptron_run_def
  label_is_def

lemma example_first_pass:
  "\<exists>m. train_pass example_points zero_perceptron = Inr (1, m)
     \<and> (\<exists>self'. train_pass example_points m = Inr (0, self'))"
  by (simp add: perceptron_defs example_points_def zero_perceptron_def nn_defs eval_nat_numeral)

theorem perceptron_train_rule_witness:
  "get_prediction zero_perceptron (of_rows 2 [[- 1, - 1]]) = Inr 1
   \<and> as_scalar (of_rows 1 [[- 1]]) = Inr (- 1)
   \<and> map_sum id fst
         (train_batch (0, zero_perceptron) (of_rows 2 [[- 1, - 1]], of_rows 1 [[- 1]])) = Inr 1
   \<and> (\<exists>m self'. nth_pass example_points 0 zero_perceptron = Inr (1, m)
         \<and> nth_pass example_points 1 zero_perceptron = Inr (0, self')
         \<and> perceptron_train example_points zero_perceptron = Some (Inr self'))"
proof -
  have g: "get_prediction zero_perceptron (of_rows 2 [[- 1, - 1]]) = Inr 1"
    and y: "as_scalar (of_rows 1 [[- 1]]) = Inr (- 1)"
    by (simp_all add: perceptron_defs zero_perceptron_def nn_defs eval_nat_numeral)
  from example_first_pass obtain m self'
    where p: "train_pass example_points zero_perceptron = Inr (1, m)"
      "train_pass example_points m = Inr (0, self')"
    by blast
  then have n: "nth_pass example_points 0 zero_perceptron = Inr (1, m)"
    "nth_pass example_points 1 zero_perceptron = Inr (0, self')"
    by simp_all
  then have first: "\<exists>n. nth_pass example_points n zero_perceptron = Inr (0, self')
      \<and> (\<forall>k<n. \<exists>c m. nth_pass example_points k zero_perceptron = Inr (c, m) \<and> c \<noteq> 0)"
    by (intro exI [of _ 1]) simp
  note rule = perceptron_train_rule [of example_points zero_perceptron
      "of_rows 2 [[- 1, - 1]]" 1 "of_rows 1 [[- 1]]" "- 1" 0 self']
  from rule g y
  have "map_sum id fst
      (train_batch (0, zero_perceptron) (of_rows 2 [[- 1, - 1]], of_rows 1 [[- 1]])) = Inr 1"
    by simp
  moreover from rule first
  have "perceptron_train example_points zero_perceptron = Some (Inr self')"
    by blast
  ultimately show ?thesis using g y n by blast
qed

lemma get_prediction_with_exact: "get_prediction_with DotProduct = get_prediction"
  by (simp add: fun_eq_iff get_prediction_with_def get_prediction_def perceptron_run_def)

lemma train_batch_with_exact: "train_batch_with DotProduct update = train_batch"
  by (simp add: fun_eq_iff train_batch_with_def train_batch_def get_prediction_with_exact
      cong: if_cong)

lemma train_pass_with_exact: "train_pass_with DotProduct update ds self = train_pass ds self"
  by (simp add: train_pass_with_def train_pass_def train_batch_with_exact)

lemma classifies_with_exact: "classifies_with DotProduct = classifies"
  by (simp add: fun_eq_iff classifies_with_def classifies_def get_prediction_with_exact)

lemma perceptron_train_with_exact:
  fixes ds :: "(ndarray, 'm) dataset"
  assumes "perceptron_train ds self = Some res"
  shows "perceptron_train_with DotProduct update ds self = Some res"
proof (rule perceptron_train.raw_induct
    [where P = "\<lambda>(ds :: (ndarray, 'm) dataset) self res.
       perceptron_train_with DotProduct update ds self = Some res", OF _ assms])
  fix train and ds :: "(ndarray, 'm) dataset" and self res
  assume IH: "\<And>(ds :: (ndarray, 'm) dataset) self res. train ds self = Some res \<Longrightarrow>
       perceptron_train_with DotProduct update ds self = Some res"
    and eq: "(case train_pass ds self of
        Inl e \<Rightarrow> Some (Inl e)
      | Inr (count, self') \<Rightarrow>
          if count \<noteq> 0 then train ds self' else Some (Inr self')) = Some res"
  show "perceptron_train_with DotProduct update ds self = Some res"
  proof (cases "train_pass ds self")
    case (Inl e)
    with eq show ?thesis
      by (subst perceptron_train_with.simps) (simp add: train_pass_with_exact)
  next
    case (Inr r)
    obtain c m where r: "r = (c, m)" by (cases r)
    show ?thesis
    proof (cases "c = 0")
      case True
      with eq Inr r show ?thesis
        by (subst perceptron_train_with.simps) (simp add: train_pass_with_exact)
    next
      case False
      with eq Inr r have "train ds m = Some res" by simp
      from IH [OF this] Inr r False show ?thesis
        by (subst perceptron_train_with.simps) (simp add: train_pass_with_exact)
    qed
  qed
qed

lemma perceptron_train_of_exact:
  fixes ds :: "(ndarray, 'm) dataset"
  assumes "perceptron_train_with dotp upd ds self = Some res"
  shows "dotp = DotProduct \<and> upd = update \<longrightarrow> perceptron_train ds self = Some res"
proof (rule perceptron_train_with.raw_induct
    [where P = "\<lambda>dotp upd (ds :: (ndarray, 'm) dataset) self res.
       dotp = DotProduct \<and> upd = update \<longrightarrow> perceptron_train ds self = Some res",
      OF _ assms])
  fix train dotp upd and ds :: "(ndarray, 'm) dataset" and self res
  assume IH: "\<And>dotp upd (ds :: (ndarray, 'm) dataset) self res.
       train dotp upd ds self = Some res \<Longrightarrow>
       dotp = DotProduct \<and> upd = update \<longrightarrow> perceptron_train ds self = Some res"
    and eq: "(case train_pass_with dotp upd ds self of
        Inl e \<Rightarrow> Some (Inl e)
      | Inr (count, self') \<Rightarrow>
          if count \<noteq> 0 then train dotp upd ds self' else Some (Inr self')) = Some res"
  show "dotp = DotProduct \<and> upd = update \<longrightarrow> perceptron_train ds self = Some res"
  proof
    assume ex: "dotp = DotProduct \<and> upd = update"
    show "perceptron_train ds self = Some res"
    proof (cases "train_pass ds self")
      case (Inl e)
      with eq ex show ?thesis
        by (subst perceptron_train.simps) (simp add: train_pass_with_exact)
    next
      case (Inr r)
      obtain c m where r: "r = (c, m)" by (cases r)
      show ?thesis
      proof (cases "c = 0")
        case True
        with eq ex Inr r show ?thesis
          by (subst perceptron_train.simps) (simp add: train_pass_with_exact)
      next
        case False
        with eq ex Inr r have "train dotp upd ds m = Some res"
          by (simp add: train_pass_with_exact)
        from IH [OF this] ex Inr r False show ?thesis
          by (subst perceptron_train.simps) simp
      qed
    qed
  qed
qed

lemma perceptron_train_with_exact_eq:
  "perceptron_train_with DotProduct update ds self = perceptron_train ds self"
proof (cases "perceptron_train ds self")
  case (Some res)
  then show ?thesis by (simp add: perceptron_train_with_exact)
next
  case None
  then show ?thesis
    using perceptron_train_of_exact [of DotProduct update ds self]
    by (cases "perceptron_train_with DotProduct update ds self") auto
qed

lemma train_batch_with_step:
  assumes "train_batch_with dotp upd (c, m) (x, y) = Inr (c', m')"
  shows "c' = c + 1 \<or> (c' = c \<and> m' = m \<and> (labelled [(x, y)] \<longrightarrow> classifies_with dotp m [(x, y)]))"
proof -
  from assms obtain p where p: "get_prediction_with dotp m x = Inr p"
    by (auto simp: train_batch_with_def and_then_eq_Inr)
  then have pm: "p = 1 \<or> p = - 1"
    by (auto simp: get_prediction_with_def and_then_eq_Inr split: if_splits)
  from assms p pm show ?thesis
    by (auto simp: train_batch_with_def label_is_def and_then_eq_Inr labelled_def
        classifies_with_def split: if_splits)
qed

lemma train_pass_with_zero:
  assumes "for_each (train_batch_with dotp upd) es (c, m) = Inr (c', m')"
  shows "c \<le> c' \<and> (c' = c \<longrightarrow> m' = m \<and> (labelled es \<longrightarrow> classifies_with dotp m es))"
  using assms
proof (induction es arbitrary: c m)
  case Nil
  then show ?case by (simp add: classifies_with_def)
next
  case (Cons e es)
  obtain x y where e: "e = (x, y)" by (cases e)
  from Cons.prems obtain c1 m1 where s: "train_batch_with dotp upd (c, m) (x, y) = Inr (c1, m1)"
    "for_each (train_batch_with dotp upd) es (c1, m1) = Inr (c', m')"
    by (auto simp: e and_then_eq_Inr)
  note IH = Cons.IH [OF s(2)]
  from train_batch_with_step [OF s(1)] show ?case
  proof
    assume "c1 = c + 1"
    with IH show ?thesis by simp
  next
    assume same: "c1 = c \<and> m1 = m \<and> (labelled [(x, y)] \<longrightarrow> classifies_with dotp m [(x, y)])"
    with IH show ?thesis
      by (auto simp: e labelled_def classifies_with_def)
  qed
qed

lemma perceptron_train_with_returns:
  fixes ds :: "(ndarray, 'm) dataset"
  assumes "perceptron_train_with dotp upd ds self = Some res"
  shows "\<forall>self'. res = Inr self' \<longrightarrow> labelled (iterate_once ds 1)
     \<longrightarrow> classifies_with dotp self' (iterate_once ds 1)"
proof (rule perceptron_train_with.raw_induct
    [where P = "\<lambda>dotp upd (ds :: (ndarray, 'm) dataset) self res.
       \<forall>self'. res = Inr self' \<longrightarrow> labelled (iterate_once ds 1)
         \<longrightarrow> classifies_with dotp self' (iterate_once ds 1)", OF _ assms])
  fix train dotp upd and ds :: "(ndarray, 'm) dataset" and self res
  assume IH: "\<And>dotp upd (ds :: (ndarray, 'm) dataset) self res.
       train dotp upd ds self = Some res \<Longrightarrow>
       \<forall>self'. res = Inr self' \<longrightarrow> labelled (iterate_once ds 1)
         \<longrightarrow> classifies_with dotp self' (iterate_once ds 1)"
    and eq: "(case train_pass_with dotp upd ds self of
        Inl e \<Rightarrow> Some (Inl e)
      | Inr (count, self') \<Rightarrow>
          if count \<noteq> 0 then train dotp upd ds self' else Some (Inr self')) = Some res"
  show "\<forall>self'. res = Inr self' \<longrightarrow> labelled (iterate_once ds 1)
         \<longrightarrow> classifies_with dotp self' (iterate_once ds 1)"
  proof (cases "train_pass_with dotp upd ds self")
    case (Inl e)
    with eq show ?thesis by auto
  next
    case (Inr r)
    obtain c m where r: "r = (c, m)" by (cases r)
    show ?thesis
    proof (cases "c = 0")
      case True
      from Inr r True have "for_each (train_batch_with dotp upd) (iterate_once ds 1) (0, self)
          = Inr (0, m)"
        by (simp add: train_pass_with_def)
      from train_pass_with_zero [OF this] eq Inr r True show ?thesis by auto
    next
      case False
      with eq Inr r have "train dotp upd ds m = Some res" by simp
      from IH [OF this] show ?thesis .
    qed
  qed
qed

text \<open>
  C3, as amended. Whatever the dot product and the update compute: when \<^verbatim>\<open>train\<close>
  returns on examples labelled \<open>1\<close> and \<open>-1\<close>, \<^verbatim>\<open>get_prediction\<close> of the model it leaves
  agrees with the label of every example. And when the dot product and the update are
  exact and some weight row separates the examples through the origin, \<^verbatim>\<open>train\<close> does
  return, from any weights of the right shape.
\<close>

theorem perceptron_train_converges:
  fixes ds :: "(ndarray, 'm) dataset"
  shows
  "(perceptron_train_with dotp upd ds self = Some (Inr self') \<and> labelled (iterate_once ds 1)
      \<longrightarrow> classifies_with dotp self' (iterate_once ds 1))
   \<and> (dotp = DotProduct \<and> upd = update \<and> separates u 0 d (iterate_once ds 1)
        \<and> shape (perc_w self) = (1, d)
      \<longrightarrow> (\<exists>self''. perceptron_train_with dotp upd ds self = Some (Inr self'')
            \<and> classifies_with dotp self'' (iterate_once ds 1)))"
proof (intro conjI impI)
  assume "perceptron_train_with dotp upd ds self = Some (Inr self') \<and> labelled (iterate_once ds 1)"
  then show "classifies_with dotp self' (iterate_once ds 1)"
    using perceptron_train_with_returns [of dotp upd ds self "Inr self'"] by simp
next
  assume a: "dotp = DotProduct \<and> upd = update \<and> separates u 0 d (iterate_once ds 1)
      \<and> shape (perc_w self) = (1, d)"
  then obtain self'' where r: "perceptron_train ds self = Some (Inr self'')"
    "classifies self'' (iterate_once ds 1)"
    using perceptron_train_separable [of u d ds self] by blast
  from perceptron_train_with_exact [OF r(1)] r(2) a
  show "\<exists>self''. perceptron_train_with dotp upd ds self = Some (Inr self'')
      \<and> classifies_with dotp self'' (iterate_once ds 1)"
    by (auto simp: classifies_with_exact)
qed

theorem perceptron_train_converges_witness:
  "separates example_normal 0 2 (iterate_once example_points 1)
   \<and> labelled (iterate_once example_points 1)
   \<and> shape (perc_w zero_perceptron) = (1, 2)
   \<and> (\<exists>self'. perceptron_train_with DotProduct update example_points zero_perceptron
           = Some (Inr self')
         \<and> classifies_with DotProduct self' (iterate_once example_points 1))"
proof -
  have s: "separates example_normal 0 2 (iterate_once example_points 1)"
    by (simp add: separates_def example_points_def example_normal_def dot_def nn_defs
        eval_nat_numeral)
  have l: "labelled (iterate_once example_points 1)"
    by (simp add: labelled_def example_points_def nn_defs)
  have w: "shape (perc_w zero_perceptron) = (1, 2)"
    by (simp add: zero_perceptron_def nn_defs)
  from perceptron_train_converges [of DotProduct update example_points zero_perceptron _
      example_normal 2] s w
  obtain self' where r: "perceptron_train_with DotProduct update example_points zero_perceptron
      = Some (Inr self')"
    by blast
  with perceptron_train_converges [of DotProduct update example_points zero_perceptron self'] l
  have "classifies_with DotProduct self' (iterate_once example_points 1)"
    by blast
  with r s l w show ?thesis by blast
qed

lemma line_pass:
  assumes "shape (perc_w self) = (1, 1)"
  shows "\<exists>c self1. train_pass line_points self = Inr (c, self1) \<and> c \<noteq> 0
     \<and> shape (perc_w self1) = (1, 1)"
proof -
  have x1: "shape (of_rows 1 [[1]]) = (1, 1)" and x2: "shape (of_rows 1 [[2]]) = (1, 1)"
    and y1: "as_scalar (of_rows 1 [[1]]) = Inr 1" and y2: "as_scalar (of_rows 1 [[- 1]]) = Inr (- 1)"
    by (simp_all add: nn_defs)
  have d1: "dot (Suc 0) (cells (of_rows (Suc 0) [[t]]) 0) v = t * v 0" for t v
    by (simp add: dot_def of_rows_def)
  have b1: "train_batch (c, m) (of_rows 1 [[1]], of_rows 1 [[1]]) =
      (if cells (perc_w m) 0 0 < 0
       then Inr (c + 1, m\<lparr>perc_w :=
              NDArray 1 1 (\<lambda>i j. cells (perc_w m) i j + 1 * cells (of_rows 1 [[1]]) i j)\<rparr>)
       else Inr (c, m))"
    if "shape (perc_w m) = (1, 1)" for c m
    using train_batch_example [OF x1 that y1, of c] by (simp add: d1)
  have b2: "train_batch (c, m) (of_rows 1 [[2]], of_rows 1 [[- 1]]) =
      (if 0 \<le> cells (perc_w m) 0 0
       then Inr (c + 1, m\<lparr>perc_w :=
              NDArray 1 1 (\<lambda>i j. cells (perc_w m) i j + - 1 * cells (of_rows 1 [[2]]) i j)\<rparr>)
       else Inr (c, m))"
    if "shape (perc_w m) = (1, 1)" for c m
    using train_batch_example [OF x2 that y2, of c] by (simp add: d1)
  show ?thesis
  proof (cases "cells (perc_w self) 0 0 < 0")
    case True
    define self1 where "self1 = self\<lparr>perc_w :=
        NDArray 1 1 (\<lambda>i j. cells (perc_w self) i j + 1 * cells (of_rows 1 [[1]]) i j)\<rparr>"
    have s1: "shape (perc_w self1) = (1, 1)" by (simp add: self1_def shape_def)
    have "train_batch (0, self) (of_rows 1 [[1]], of_rows 1 [[1]]) = Inr (1, self1)"
      using b1 [OF assms, of 0] True by (simp add: self1_def)
    moreover have "\<exists>c self2. train_batch (1, self1) (of_rows 1 [[2]], of_rows 1 [[- 1]])
        = Inr (c, self2) \<and> c \<noteq> 0 \<and> shape (perc_w self2) = (1, 1)"
      using b2 [OF s1, of 1] s1 by (auto simp: shape_def)
    ultimately show ?thesis
      by (auto simp: train_pass_def line_points_def)
  next
    case False
    have "train_batch (0, self) (of_rows 1 [[1]], of_rows 1 [[1]]) = Inr (0, self)"
      using b1 [OF assms, of 0] False by simp
    moreover have "\<exists>self2. train_batch (0, self) (of_rows 1 [[2]], of_rows 1 [[- 1]])
        = Inr (1, self2) \<and> shape (perc_w self2) = (1, 1)"
      using b2 [OF assms, of 0] False by (auto simp: shape_def)
    ultimately show ?thesis
      by (auto simp: train_pass_def line_points_def)
  qed
qed

lemma line_never_returns:
  assumes "perceptron_train ds self = Some res"
  shows "ds = line_points \<longrightarrow> shape (perc_w self) \<noteq> (1, 1)"
proof (rule perceptron_train.raw_induct
    [where P = "\<lambda>ds self res. ds = line_points \<longrightarrow> shape (perc_w self) \<noteq> (1, 1)",
      OF _ assms])
  fix train and ds :: "(ndarray, unit) dataset" and self res
  assume IH: "\<And>(ds :: (ndarray, unit) dataset) self res. train ds self = Some res \<Longrightarrow>
       ds = line_points \<longrightarrow> shape (perc_w self) \<noteq> (1, 1)"
    and eq: "(case train_pass ds self of
        Inl e \<Rightarrow> Some (Inl e)
      | Inr (count, self') \<Rightarrow>
          if count \<noteq> 0 then train ds self' else Some (Inr self')) = Some res"
  show "ds = line_points \<longrightarrow> shape (perc_w self) \<noteq> (1, 1)"
  proof (intro impI notI)
    assume ds: "ds = line_points" and sh: "shape (perc_w self) = (1, 1)"
    from line_pass [OF sh] obtain c self1 where p: "train_pass line_points self = Inr (c, self1)"
      "c \<noteq> 0" "shape (perc_w self1) = (1, 1)"
      by blast
    with eq ds have "train line_points self1 = Some res" by simp
    from IH [OF this] p(3) show False by simp
  qed
qed

text \<open>
  The points \<open>1\<close> (labelled \<open>1\<close>) and \<open>2\<close> (labelled \<open>-1\<close>) of the line are separated by
  \<open>3/2 - x\<close>, but by no weight through the origin: every pass corrects the weight, and
  \<^verbatim>\<open>train\<close> never returns.
\<close>

theorem perceptron_train_line_counterexample:
  "separates line_normal (3 / 2) 1 (iterate_once line_points 1)
   \<and> perceptron_train line_points line_perceptron = None"
proof -
  have "separates line_normal (3 / 2) 1 (iterate_once line_points 1)"
    by (simp add: separates_def line_points_def line_normal_def dot_def nn_defs)
  moreover have "shape (perc_w line_perceptron) = (1, 1)"
    by (simp add: line_perceptron_def nn_defs)
  then have "perceptron_train line_points line_perceptron = None"
    using line_never_returns [of line_points line_perceptron]
    by (cases "perceptron_train line_points line_perceptron") auto
  ultimately show ?thesis by simp
qed

text \<open>
  The exact sums matter: with an update that loses its addend, as the float64 update
  does for the weight \<open>0.5\<close> and the point \<open>2\<^sup>-\<^sup>6\<^sup>0\<close> labelled \<open>-1\<close>, every pass counts a
  correction that changes nothing, and \<^verbatim>\<open>train\<close> never returns, although the weight
  \<open>-1\<close> separates the example through the origin.
\<close>

lemma absorbed_pass:
  "train_pass_with DotProduct absorbing_update tiny_points line_perceptron
     = Inr (1, line_perceptron)"
  by (simp add: train_pass_with_def train_batch_with_def get_prediction_with_def label_is_def
      absorbing_update_def tiny_points_def line_perceptron_def nn_defs)

lemma absorbed_never_returns:
  assumes "perceptron_train_with dotp upd ds self = Some res"
  shows "\<not> (dotp = DotProduct \<and> upd = absorbing_update \<and> ds = tiny_points
     \<and> self = line_perceptron)"
proof (rule perceptron_train_with.raw_induct
    [where P = "\<lambda>dotp upd ds self res. \<not> (dotp = DotProduct \<and> upd = absorbing_update
       \<and> ds = tiny_points \<and> self = line_perceptron)", OF _ assms])
  fix train dotp upd and ds :: "(ndarray, unit) dataset" and self res
  assume IH: "\<And>dotp upd (ds :: (ndarray, unit) dataset) self res.
       train dotp upd ds self = Some res \<Longrightarrow>
       \<not> (dotp = DotProduct \<and> upd = absorbing_update \<and> ds = tiny_points
          \<and> self = line_perceptron)"
    and eq: "(case train_pass_with dotp upd ds self of
        Inl e \<Rightarrow> Some (Inl e)
      | Inr (count, self') \<Rightarrow>
          if count \<noteq> 0 then train dotp upd ds self' else Some (Inr self')) = Some res"
  show "\<not> (dotp = DotProduct \<and> upd = absorbing_update \<and> ds = tiny_points
      \<and> self = line_perceptron)"
  proof
    assume a: "dotp = DotProduct \<and> upd = absorbing_update \<and> ds = tiny_points
        \<and> self = line_perceptron"
    with eq have "train DotProduct absorbing_update tiny_points line_perceptron = Some res"
      by (simp add: absorbed_pass)
    from IH [OF this] show False by simp
  qed
qed

lemma absorbed_update_loops:
  "separates line_normal 0 1 (iterate_once tiny_points 1)
   \<and> perceptron_train_with DotProduct absorbing_update tiny_points line_perceptron = None"
proof -
  have "separates line_normal 0 1 (iterate_once tiny_points 1)"
    by (simp add: separates_def tiny_points_def line_normal_def dot_def nn_defs)
  moreover have "perceptron_train_with DotProduct absorbing_update tiny_points line_perceptron
      = None"
    using absorbed_never_returns [of DotProduct absorbing_update tiny_points line_perceptron]
    by (cases "perceptron_train_with DotProduct absorbing_update tiny_points line_perceptron")
      auto
  ultimately show ?thesis by simp
qed

end
